theory Spec2Isabelle
  imports Complex_Main
begin

section \<open>ECMAScript time values\<close>

text \<open>
  A JavaScript \<^verbatim>\<open>Date\<close> holds a time value: the number of milliseconds since
  1970-01-01T00:00:00Z. The functions below are the day and year arithmetic of ECMA-262
  (section "Time Values and Time Range") that \<^verbatim>\<open>getFullYear\<close>, \<^verbatim>\<open>getMonth\<close>,
  \<^verbatim>\<open>getDate\<close> and \<^verbatim>\<open>Date.UTC\<close> are defined by. A \<^verbatim>\<open>Date\<close> object is
  modelled by its time value; the \<^verbatim>\<open>Invalid Date\<close> object is outside the model. A
  number that is computed from dates and is not a time value (the \<^verbatim>\<open>NaN\<close> that
  \<^verbatim>\<open>Date.UTC\<close> returns out of range) is modelled by \<open>None\<close>.
\<close>

type_synonym Date = int

definition msPerDay :: int where
  "msPerDay = 86400000"

definition Day :: "int \<Rightarrow> int" where
  "Day t = t div msPerDay"

definition DaysInYear :: "int \<Rightarrow> int" where
  "DaysInYear y =
     (if y mod 4 \<noteq> 0 then 365
      else if y mod 100 \<noteq> 0 then 366
      else if y mod 400 \<noteq> 0 then 365
      else 366)"

definition DayFromYear :: "int \<Rightarrow> int" where
  "DayFromYear y =
     365 * (y - 1970) + (y - 1969) div 4 - (y - 1901) div 100 + (y - 1601) div 400"

text \<open>
  ECMA-262 defines \<^verbatim>\<open>YearFromTime(t)\<close> as the largest \<open>y\<close> with
  \<^verbatim>\<open>TimeFromYear(y) \<le> t\<close>. \<open>YearFromDay\<close> computes it: an estimate from the mean
  length of a Gregorian year, corrected by at most one year either way (lemmas
  \<open>YearFromDay_spec\<close> and \<open>YearFromDay_largest\<close> below show that it is that year).
\<close>

definition YearFromDay :: "int \<Rightarrow> int" where
  "YearFromDay d =
     (let y0 = 1970 + (400 * d) div 146097
      in if DayFromYear (y0 + 1) \<le> d then y0 + 1
         else if DayFromYear y0 \<le> d then y0
         else y0 - 1)"

definition YearFromTime :: "int \<Rightarrow> int" where
  "YearFromTime t = YearFromDay (Day t)"

definition InLeapYear :: "int \<Rightarrow> int" where
  "InLeapYear t = (if DaysInYear (YearFromTime t) = 366 then 1 else 0)"

definition DayWithinYear :: "int \<Rightarrow> int" where
  "DayWithinYear t = Day t - DayFromYear (YearFromTime t)"

definition MonthFromTime :: "int \<Rightarrow> int" where
  "MonthFromTime t =
     (let d = DayWithinYear t; l = InLeapYear t
      in if d < 31 then 0
         else if d < 59 + l then 1
         else if d < 90 + l then 2
         else if d < 120 + l then 3
         else if d < 151 + l then 4
         else if d < 181 + l then 5
         else if d < 212 + l then 6
         else if d < 243 + l then 7
         else if d < 273 + l then 8
         else if d < 304 + l then 9
         else if d < 334 + l then 10
         else 11)"

definition DateFromTime :: "int \<Rightarrow> int" where
  "DateFromTime t =
     (let d = DayWithinYear t; l = InLeapYear t; m = MonthFromTime t
      in if m = 0 then d + 1
         else if m = 1 then d - 30
         else if m = 2 then d - 58 - l
         else if m = 3 then d - 89 - l
         else if m = 4 then d - 119 - l
         else if m = 5 then d - 150 - l
         else if m = 6 then d - 180 - l
         else if m = 7 then d - 211 - l
         else if m = 8 then d - 242 - l
         else if m = 9 then d - 272 - l
         else if m = 10 then d - 303 - l
         else d - 333 - l)"

text \<open>Days of the year that precede the first day of month \<open>mn\<close> (0 = January).\<close>

definition DaysBeforeMonth :: "int \<Rightarrow> int \<Rightarrow> int" where
  "DaysBeforeMonth l mn =
     (if mn = 0 then 0
      else if mn = 1 then 31
      else if mn = 2 then 59 + l
      else if mn = 3 then 90 + l
      else if mn = 4 then 120 + l
      else if mn = 5 then 151 + l
      else if mn = 6 then 181 + l
      else if mn = 7 then 212 + l
      else if mn = 8 then 243 + l
      else if mn = 9 then 273 + l
      else if mn = 10 then 304 + l
      else 334 + l)"

text \<open>
  \<^verbatim>\<open>MakeDay(year, month, date)\<close>: the day number of the first day of month
  \<^verbatim>\<open>month mod 12\<close> of year \<^verbatim>\<open>year + floor(month / 12)\<close>, plus \<^verbatim>\<open>date - 1\<close>.
\<close>

definition MakeDay :: "int \<Rightarrow> int \<Rightarrow> int \<Rightarrow> int" where
  "MakeDay year month date =
     (let ym = year + month div 12; mn = month mod 12;
          l = (if DaysInYear ym = 366 then 1 else 0)
      in DayFromYear ym + DaysBeforeMonth l mn + date - 1)"

text \<open>
  \<^verbatim>\<open>TimeClip(time)\<close>: a number more than \<open>8.64 \<times> 10\<^sup>1\<^sup>5\<close> milliseconds away from the
  epoch is not a time value, and the result is \<^verbatim>\<open>NaN\<close>.
\<close>

definition TimeClip :: "int \<Rightarrow> int option" where
  "TimeClip time = (if \<bar>time\<bar> > 8640000000000000 then None else Some time)"

text \<open>
  \<^verbatim>\<open>Date.UTC(year, month, date)\<close> with hours, minutes, seconds and milliseconds
  left at 0. A year from 0 to 99 means 1900 + year, as ECMA-262 prescribes, and the
  result goes through \<^verbatim>\<open>TimeClip\<close>.
\<close>

definition Date_UTC :: "int \<Rightarrow> int \<Rightarrow> int \<Rightarrow> int option" where
  "Date_UTC year month date =
     (let yr = (if 0 \<le> year \<and> year \<le> 99 then 1900 + year else year)
      in TimeClip (MakeDay yr month date * msPerDay))"

text \<open>
  Local time. The host's time zone is the function \<open>tza\<close>: the offset of local time
  from UTC, in milliseconds, at a given UTC time value (ECMA-262's \<^verbatim>\<open>LocalTZA\<close>).
  \<^verbatim>\<open>getFullYear\<close>, \<^verbatim>\<open>getMonth\<close> and \<^verbatim>\<open>getDate\<close> read the local time.
\<close>

type_synonym TimeZone = "int \<Rightarrow> int"

definition LocalTime :: "TimeZone \<Rightarrow> Date \<Rightarrow> int" where
  "LocalTime tza t = t + tza t"

definition getFullYear :: "TimeZone \<Rightarrow> Date \<Rightarrow> int" where
  "getFullYear tza t = YearFromTime (LocalTime tza t)"

definition getMonth :: "TimeZone \<Rightarrow> Date \<Rightarrow> int" where
  "getMonth tza t = MonthFromTime (LocalTime tza t)"

definition getDate :: "TimeZone \<Rightarrow> Date \<Rightarrow> int" where
  "getDate tza t = DateFromTime (LocalTime tza t)"

section \<open>The update orchestrator: \<^verbatim>\<open>diffInHours\<close>\<close>

definition HEURISTIC_NIGHTLY_RELEASE_PERIOD_IN_HOURS :: real where
  "HEURISTIC_NIGHTLY_RELEASE_PERIOD_IN_HOURS = 25"

text \<open>
  \<^verbatim>\<open>diffInHours(a, b)\<close>. The division is the division of JavaScript numbers, so the
  result is a real number here (both operands are integers below \<open>2\<^sup>5\<^sup>3\<close>); when either
  \<^verbatim>\<open>Date.UTC\<close> is \<^verbatim>\<open>NaN\<close>, so are the difference and the quotient.
\<close>

definition diffInHours :: "TimeZone \<Rightarrow> Date \<Rightarrow> Date \<Rightarrow> real option" where
  "diffInHours tza a b =
     (let utcA = Date_UTC (getFullYear tza a) (getMonth tza a) (getDate tza a);
          utcB = Date_UTC (getFullYear tza b) (getMonth tza b) (getDate tza b)
      in case (utcA, utcB) of
           (Some x, Some y) \<Rightarrow> Some (real_of_int (x - y) / (1000 * 60 * 60))
         | _ \<Rightarrow> None)"

text \<open>The comparison \<^verbatim>\<open>x < y\<close> of numbers: it is false when \<open>x\<close> is \<^verbatim>\<open>NaN\<close>.\<close>

definition Number_lt :: "real option \<Rightarrow> real \<Rightarrow> bool" where
  "Number_lt x y = (case x of None \<Rightarrow> False | Some v \<Rightarrow> v < y)"

section \<open>\<^verbatim>\<open>config.ts\<close>\<close>

type_synonym Err = string

datatype UpdatesChannel = Stable | Nightly

definition NIGHTLY_TAG :: string where
  "NIGHTLY_TAG = ''nightly''"

text \<open>\<^verbatim>\<open>String.prototype.endsWith\<close> and \<^verbatim>\<open>startsWith\<close>.\<close>

definition endsWith :: "string \<Rightarrow> string \<Rightarrow> bool" where
  "endsWith s t = (length t \<le> length s \<and> drop (length s - length t) s = t)"

definition startsWith :: "string \<Rightarrow> string \<Rightarrow> bool" where
  "startsWith s t = (take (length t) s = t)"

text \<open>
  The regular expression \<^verbatim>\<open>/^\d+\.\d+\.(\d{4})(\d{2})(\d{2})/\<close>. Without the
  \<^verbatim>\<open>u\<close> flag \<^verbatim>\<open>\d\<close> is an ASCII digit. \<^verbatim>\<open>\d+\.\<close> can only match by taking
  every leading digit and then a dot (a shorter run of digits is followed by a digit,
  not by a dot), so the greedy match is the only one. The expression is anchored at the
  start only: anything may follow the eight digits.
\<close>

definition isDigit :: "char \<Rightarrow> bool" where
  "isDigit c = (c \<in> set ''0123456789'')"

definition skipNumberDot :: "string \<Rightarrow> string option" where
  "skipNumberDot s =
     (case dropWhile isDigit s of
        [] \<Rightarrow> None
      | c # rest \<Rightarrow> if takeWhile isDigit s \<noteq> [] \<and> c = CHR ''.'' then Some rest else None)"

definition realVersionRegexp_match :: "string \<Rightarrow> (string \<times> string \<times> string) option" where
  "realVersionRegexp_match s =
     (case skipNumberDot s of
        None \<Rightarrow> None
      | Some s1 \<Rightarrow>
          (case skipNumberDot s1 of
             None \<Rightarrow> None
           | Some s2 \<Rightarrow>
               if 8 \<le> length s2 \<and> list_all isDigit (take 8 s2)
               then Some (take 4 s2, take 2 (drop 4 s2), take 2 (drop 6 s2))
               else None))"

text \<open>
  The initialiser of the field \<^verbatim>\<open>extensionReleaseTag\<close>. When the version does not
  match, \<^verbatim>\<open>match\<close> returns \<^verbatim>\<open>null\<close> and destructuring it throws a
  \<^verbatim>\<open>TypeError\<close>: the constructor of \<^verbatim>\<open>Config\<close> fails.
\<close>

definition extensionReleaseTag_init :: "string \<Rightarrow> Err + string" where
  "extensionReleaseTag_init version =
     (if endsWith version NIGHTLY_TAG then Inr NIGHTLY_TAG
      else case realVersionRegexp_match version of
             None \<Rightarrow> Inl ''TypeError: null is not iterable''
           | Some (yyyy, mm, dd) \<Rightarrow> Inr (yyyy @ ''-'' @ mm @ ''-'' @ dd))"

text \<open>
  What a \<^verbatim>\<open>Config\<close> reads from its host: the version in the extension's
  \<^verbatim>\<open>package.json\<close>, the process (environment variable
  \<^verbatim>\<open>__RA_LSP_SERVER_DEBUG\<close>, platform, architecture, home directory), the extension
  context's storage path, and the options \<^verbatim>\<open>serverPath\<close>, \<^verbatim>\<open>updates.channel\<close> and
  \<^verbatim>\<open>updates.askBeforeDownload\<close> of the workspace configuration. The other options have
  no part in the update logic and are left out. \<open>path_join\<close> is \<^verbatim>\<open>path.join\<close> of the
  platform, for two arguments: the installer imports it from Node's \<^verbatim>\<open>path\<close>, and
  nothing is assumed about it.
\<close>

record Host =
  packageJsonVersion :: string
  RA_LSP_DEBUG :: "string option"
  process_platform :: string
  process_arch :: string
  os_homedir :: string
  globalStoragePath :: string
  path_join :: "string \<Rightarrow> string \<Rightarrow> string"
  serverPath :: "string option"
  updatesChannel :: UpdatesChannel
  askBeforeDownload :: bool

record Config = Host +
  extensionReleaseTag :: string

definition extensionId :: string where
  "extensionId = ''matklad.rust-analyzer''"

definition Config_new :: "Host \<Rightarrow> Err + Config" where
  "Config_new h =
     (case extensionReleaseTag_init (packageJsonVersion h) of
        Inl e \<Rightarrow> Inl e
      | Inr t \<Rightarrow>
          Inr \<lparr> packageJsonVersion = packageJsonVersion h,
                RA_LSP_DEBUG = RA_LSP_DEBUG h,
                process_platform = process_platform h,
                process_arch = process_arch h,
                os_homedir = os_homedir h,
                globalStoragePath = globalStoragePath h,
                path_join = path_join h,
                serverPath = serverPath h,
                updatesChannel = updatesChannel h,
                askBeforeDownload = askBeforeDownload h,
                extensionReleaseTag = t \<rparr>)"

definition replaceTildeWithHomeDir :: "string \<Rightarrow> string \<Rightarrow> string" where
  "replaceTildeWithHomeDir home p =
     (if startsWith p ''~/'' then home @ drop (length ''~'') p else p)"

definition prebuiltServerFileName :: "Config \<Rightarrow> string option" where
  "prebuiltServerFileName c =
     (if process_platform c = ''linux'' then
        (if process_arch c = ''arm'' \<or> process_arch c = ''arm64'' then None
         else Some ''rust-analyzer-linux'')
      else if process_platform c = ''darwin'' then Some ''rust-analyzer-mac''
      else if process_platform c = ''win32'' then Some ''rust-analyzer-windows.exe''
      else None)"

definition installedExtensionUpdateChannel :: "Config \<Rightarrow> UpdatesChannel" where
  "installedExtensionUpdateChannel c =
     (if extensionReleaseTag c = NIGHTLY_TAG then Nightly else Stable)"

record GithubRepo =
  repo_name :: string
  repo_owner :: string

record GithubRelease =
  src_file :: string
  src_tag :: string
  src_dir :: string
  src_repo :: GithubRepo

datatype ArtifactSource = ExplicitPath string | GithubReleaseSource GithubRelease

definition createGithubReleaseSource :: "Config \<Rightarrow> string \<Rightarrow> string \<Rightarrow> GithubRelease" where
  "createGithubReleaseSource c file tag =
     \<lparr> src_file = file, src_tag = tag, src_dir = globalStoragePath c,
       src_repo = \<lparr> repo_name = ''rust-analyzer'', repo_owner = ''rust-analyzer'' \<rparr> \<rparr>"

text \<open>
  \<^verbatim>\<open>serverSource\<close>: \<^verbatim>\<open>RA_LSP_DEBUG ?? this.serverPath\<close> takes the option only
  when the environment variable is not set, and the test \<^verbatim>\<open>if (serverPath)\<close> fails on
  \<^verbatim>\<open>null\<close> and on the empty string.
\<close>

definition serverSource :: "Config \<Rightarrow> ArtifactSource option" where
  "serverSource c =
     (let sp = (case RA_LSP_DEBUG c of Some p \<Rightarrow> Some p | None \<Rightarrow> serverPath c)
      in case (if sp = Some [] then None else sp) of
           Some p \<Rightarrow> Some (ExplicitPath (replaceTildeWithHomeDir (os_homedir c) p))
         | None \<Rightarrow>
             (case prebuiltServerFileName c of
                None \<Rightarrow> None
              | Some prebuiltBinaryName \<Rightarrow>
                  Some (GithubReleaseSource
                         (createGithubReleaseSource c prebuiltBinaryName (extensionReleaseTag c)))))"

definition nightlyVsixSource :: "Config \<Rightarrow> GithubRelease" where
  "nightlyVsixSource c = createGithubReleaseSource c ''rust-analyzer.vsix'' NIGHTLY_TAG"

text \<open>
  The persisted state: the key \<^verbatim>\<open>installed-nightly-extension-release-date\<close> of the
  extension's global state. \<^verbatim>\<open>DateStorage.set\<close> stores \<^verbatim>\<open>date.toString()\<close> and
  \<^verbatim>\<open>DateStorage.get\<close> returns \<^verbatim>\<open>new Date(dateStr)\<close>; the stored string is modelled
  by the date it parses back to. Which date that is, is the host engine's matter (the
  field \<open>Date_of_toString\<close> of the host's answers below): \<^verbatim>\<open>new Date(d.toString())\<close>
  for a date \<open>d\<close>. ECMA-262 gives the string a resolution of one second and has it
  parse back to \<open>d\<close> without its milliseconds, which is \<open>Date_toString_parse\<close>; engines
  differ from that for some years.
\<close>

record GlobalState =
  installedNightlyExtensionReleaseDate :: "Date option"

definition Date_toString_parse :: "Date \<Rightarrow> Date" where
  "Date_toString_parse t = (t div 1000) * 1000"

definition DateStorage_get :: "GlobalState \<Rightarrow> Date option" where
  "DateStorage_get st = installedNightlyExtensionReleaseDate st"

section \<open>The update orchestrator\<close>

text \<open>
  The orchestrator acts on its host: it shows messages, calls commands of the editor,
  fetches and downloads, writes the persisted state and the file system. A run is
  modelled by its outcome, the list of these actions in the order they were started,
  and the persisted state it leaves. The diagnostic \<^verbatim>\<open>log.debug\<close> lines are not
  actions and are left out. An action is listed when it is started, whether it then
  succeeds or fails.
\<close>

record ArtifactReleaseInfo =
  releaseDate :: Date
  downloadUrl :: string

datatype Event =
    StorageUpdate "Date option"
  | ShowErrorMessage string
  | ShowInformationMessage string "string list"
  | ReinstallExtension string
  | ReloadWindow
  | FetchArtifactReleaseInfo GithubRepo string string
  | DownloadArtifact ArtifactReleaseInfo string string string
  | InstallExtensionFromVsix string
  | Unlink string
  | LogDownloadError Err string string

text \<open>
  \<open>Returned\<close>: the promise resolved. \<open>Threw e\<close>: it rejected with \<open>e\<close>.
  \<open>Restarted\<close>: the window reloaded, which ends the extension's process
  (\<^verbatim>\<open>vscodeReloadWindow\<close> "never returns").
\<close>

datatype Outcome = Returned | Threw Err | Restarted

type_synonym Run = "Outcome \<times> Event list \<times> GlobalState"

text \<open>
  What the host answers during one invocation, one field for each place of the code that
  waits for the host (each is reached at most once in an invocation):
  the clock, the time zone and the engine's \<^verbatim>\<open>new Date(d.toString())\<close>; the button the user chooses in the download prompt
  (\<open>None\<close>: the prompt is dismissed); for each call that may fail, its error
  (\<open>None\<close>: it succeeds); the release info the fetch returns, or its error; and what
  another editor instance wrote to the shared persisted date while this one waited
  (\<open>None\<close>: nothing).
\<close>

record Env =
  now :: Date
  localTZA :: TimeZone
  Date_of_toString :: "Date \<Rightarrow> Date"
  userResponse :: "string option"
  clearResult :: "Err option"
  reinstallResult :: "Err option"
  reloadResult :: "Err option"
  fetchResult :: "Err + ArtifactReleaseInfo"
  otherInstanceWrite :: "Date option option"
  downloadResult :: "Err option"
  installResult :: "Err option"
  persistResult :: "Err option"
  unlinkResult :: "Err option"

text \<open>What \<^verbatim>\<open>DateStorage.set(date)\<close> stores, as the date \<^verbatim>\<open>get\<close> will return.\<close>

definition DateStorage_stored :: "Env \<Rightarrow> Date option \<Rightarrow> Date option" where
  "DateStorage_stored env date = map_option (Date_of_toString env) date"

text \<open>Sequencing: the actions \<open>evs\<close> happened before the run \<open>r\<close>.\<close>

definition after :: "Event list \<Rightarrow> Run \<Rightarrow> Run" where
  "after evs r = (case r of (out, tr, st) \<Rightarrow> (out, evs @ tr, st))"

text \<open>
  \<^verbatim>\<open>await\<close> of a host call that returns nothing: the call is started; if it fails
  the error is thrown here, otherwise the rest \<open>k\<close> runs.
\<close>

definition await :: "Event \<Rightarrow> Err option \<Rightarrow> (GlobalState \<Rightarrow> Run) \<Rightarrow> GlobalState \<Rightarrow> Run" where
  "await ev res k st =
     (case res of
        Some e \<Rightarrow> (Threw e, [ev], st)
      | None \<Rightarrow> after [ev] (k st))"

text \<open>
  \<^verbatim>\<open>await config.installedNightlyExtensionReleaseDate.set(date)\<close>: a failed update
  leaves the persisted state as it was.
\<close>

definition DateStorage_set ::
  "Env \<Rightarrow> Date option \<Rightarrow> Err option \<Rightarrow> (GlobalState \<Rightarrow> Run) \<Rightarrow> GlobalState \<Rightarrow> Run" where
  "DateStorage_set env date res k st =
     (case res of
        Some e \<Rightarrow> (Threw e, [StorageUpdate (DateStorage_stored env date)], st)
      | None \<Rightarrow>
          after [StorageUpdate (DateStorage_stored env date)]
            (k (st\<lparr>installedNightlyExtensionReleaseDate := DateStorage_stored env date\<rparr>)))"

text \<open>\<^verbatim>\<open>await vscodeReloadWindow()\<close>: on success nothing runs after it.\<close>

definition vscodeReloadWindow :: "Env \<Rightarrow> GlobalState \<Rightarrow> Run" where
  "vscodeReloadWindow env st =
     (case reloadResult env of
        Some e \<Rightarrow> (Threw e, [ReloadWindow], st)
      | None \<Rightarrow> (Restarted, [ReloadWindow], st))"

definition askToDownloadProperExtensionVersion :: "Config \<Rightarrow> Env \<Rightarrow> string \<Rightarrow> bool \<times> Event list" where
  "askToDownloadProperExtensionVersion config env reason =
     (if \<not> askBeforeDownload config then (True, [])
      else
        let stableOrNightly =
              (if updatesChannel config = Stable then ''stable'' else ''latest nightly'')
        in (userResponse env = Some ''Download now'',
            [ShowInformationMessage
               (reason @ ''Do you want to download the '' @ stableOrNightly
                  @ '' rust-analyzer extension version and reload the window now?'')
               [''Download now'', ''Cancel'']]))"

text \<open>
  The guard \<^verbatim>\<open>shouldDownload\<close> reads the persisted state and may show a message; it
  returns a boolean or throws.
\<close>

type_synonym Guard = "ArtifactReleaseInfo \<Rightarrow> GlobalState \<Rightarrow> (Err + bool) \<times> Event list"

definition defaultShouldDownload :: Guard where
  "defaultShouldDownload releaseInfo st = (Inr True, [])"

text \<open>
  The body of the \<^verbatim>\<open>try\<close> block of \<^verbatim>\<open>tryDownloadNightlyExtension\<close>. A write of
  another editor instance to the shared persisted date takes effect while the fetch is
  awaited, before the guard reads the date again.
\<close>

definition tryDownloadNightlyExtension_try :: "Config \<Rightarrow> Env \<Rightarrow> Guard \<Rightarrow> GlobalState \<Rightarrow> Run" where
  "tryDownloadNightlyExtension_try config env shouldDownload st =
     (let vsixSource = nightlyVsixSource config;
          fetch = FetchArtifactReleaseInfo (src_repo vsixSource) (src_file vsixSource)
                    (src_tag vsixSource)
      in case fetchResult env of
           Inl e \<Rightarrow> (Threw e, [fetch], st)
         | Inr releaseInfo \<Rightarrow>
             (let st1 = (case otherInstanceWrite env of
                           None \<Rightarrow> st
                         | Some v \<Rightarrow> st\<lparr>installedNightlyExtensionReleaseDate := v\<rparr>)
              in case shouldDownload releaseInfo st1 of
                   (Inl e, evs) \<Rightarrow> (Threw e, fetch # evs, st1)
                 | (Inr False, evs) \<Rightarrow> (Returned, fetch # evs, st1)
                 | (Inr True, evs) \<Rightarrow>
                     after (fetch # evs)
                       (await (DownloadArtifact releaseInfo (src_file vsixSource)
                                 (src_dir vsixSource) ''nightly extension'')
                          (downloadResult env)
                          (let vsixPath = path_join config (src_dir vsixSource) (src_file vsixSource)
                           in await (InstallExtensionFromVsix vsixPath) (installResult env)
                                (DateStorage_set env (Some (releaseDate releaseInfo))
                                   (persistResult env)
                                   (await (Unlink vsixPath) (unlinkResult env)
                                      (vscodeReloadWindow env))))
                          st1)))"

text \<open>
  \<^verbatim>\<open>tryDownloadNightlyExtension\<close>: the \<^verbatim>\<open>try\<close> block with its \<^verbatim>\<open>catch\<close>, which
  logs the error and returns. The source wraps the function in \<^verbatim>\<open>notReentrant\<close>,
  which acts only on a call made while another one is in flight; a run here is one call.
\<close>

definition tryDownloadNightlyExtension :: "Config \<Rightarrow> Env \<Rightarrow> Guard \<Rightarrow> GlobalState \<Rightarrow> Run" where
  "tryDownloadNightlyExtension config env shouldDownload st =
     (case tryDownloadNightlyExtension_try config env shouldDownload st of
        (Threw err, tr, st') \<Rightarrow>
          (Returned,
           tr @ [LogDownloadError err ''nightly extension''
                   (repo_name (src_repo (nightlyVsixSource config)))],
           st')
      | r \<Rightarrow> r)"

text \<open>
  The guard of the staleness path (the arrow function passed at the end of
  \<^verbatim>\<open>ensureProperExtensionVersion\<close>). The emoji of the message is written as its four
  UTF-8 bytes.
\<close>

definition upToDateMessage :: string where
  "upToDateMessage =
     ''Whoops, it appears that your nightly version is up-to-date. ''
     @ ''There might be some problems with the upcomming nightly release ''
     @ ''or you traveled too far into the future. Sorry for that ''
     @ [CHR 0xF0, CHR 0x9F, CHR 0x98, CHR 0x85] @ ''! ''"

definition stalenessGuard :: "Date \<Rightarrow> Guard" where
  "stalenessGuard currentExtReleaseDate releaseInfo st =
     (if Some currentExtReleaseDate \<noteq> DateStorage_get st
      then (Inl ''Other active VSCode instance has reinstalled the extension'', [])
      else if releaseDate releaseInfo = currentExtReleaseDate
      then (Inr False, [ShowInformationMessage upToDateMessage []])
      else (Inr True, []))"

definition releaseDateMissingMessage :: string where
  "releaseDateMissingMessage =
     ''Nightly release date must've been set during the installation. ''
     @ ''Did you download and install the nightly .vsix package manually?''"

text \<open>
  \<^verbatim>\<open>ensureProperExtensionVersion\<close> from the test of the desired channel on (the code
  after the persisted date has been cleared).
\<close>

definition ensureProperExtensionVersion_decide :: "Config \<Rightarrow> Env \<Rightarrow> GlobalState \<Rightarrow> Run" where
  "ensureProperExtensionVersion_decide config env st =
     (let currentUpdChannel = installedExtensionUpdateChannel config;
          desiredUpdChannel = updatesChannel config
      in if desiredUpdChannel = Stable then
           (if currentUpdChannel = Stable then (Returned, [], st)
            else case askToDownloadProperExtensionVersion config env [] of
                   (False, evs) \<Rightarrow> (Returned, evs, st)
                 | (True, evs) \<Rightarrow>
                     after evs
                       (await (ReinstallExtension extensionId) (reinstallResult env)
                          (vscodeReloadWindow env) st))
         else if currentUpdChannel = Stable then
           (case askToDownloadProperExtensionVersion config env [] of
              (False, evs) \<Rightarrow> (Returned, evs, st)
            | (True, evs) \<Rightarrow>
                after evs (tryDownloadNightlyExtension config env defaultShouldDownload st))
         else
           (case DateStorage_get st of
              None \<Rightarrow>
                (Threw ''Nightly release date was not set in globalStorage'',
                 [ShowErrorMessage releaseDateMissingMessage], st)
            | Some currentExtReleaseDate \<Rightarrow>
                (let dateNow = now env;
                     hoursSinceLastUpdate =
                       diffInHours (localTZA env) currentExtReleaseDate dateNow
                 in if Number_lt hoursSinceLastUpdate HEURISTIC_NIGHTLY_RELEASE_PERIOD_IN_HOURS
                    then (Returned, [], st)
                    else case askToDownloadProperExtensionVersion config env
                                ''The installed nightly version is most likely outdated. '' of
                           (False, evs) \<Rightarrow> (Returned, evs, st)
                         | (True, evs) \<Rightarrow>
                             after evs
                               (tryDownloadNightlyExtension config env
                                  (stalenessGuard currentExtReleaseDate) st))))"

definition isExplicitPath :: "ArtifactSource option \<Rightarrow> bool" where
  "isExplicitPath src = (case src of Some (ExplicitPath p) \<Rightarrow> True | _ \<Rightarrow> False)"

definition ensureProperExtensionVersion :: "Config \<Rightarrow> Env \<Rightarrow> GlobalState \<Rightarrow> Run" where
  "ensureProperExtensionVersion config env st =
     (if isExplicitPath (serverSource config) then (Returned, [], st)
      else if installedExtensionUpdateChannel config = Stable
      then DateStorage_set env None (clearResult env)
             (ensureProperExtensionVersion_decide config env) st
      else ensureProperExtensionVersion_decide config env st)"

text \<open>The download prompt among the actions: an information message with buttons.\<close>

fun isPrompt :: "Event \<Rightarrow> bool" where
  "isPrompt (ShowInformationMessage m buttons) = (buttons \<noteq> [])"
| "isPrompt _ = False"

section \<open>Names for the actions of a run\<close>

text \<open>
  The persisted state once the write of another editor instance, if any, has taken effect;
  the actions of \<^verbatim>\<open>tryDownloadNightlyExtension\<close>, as its \<^verbatim>\<open>try\<close> block starts them;
  and a run with the download prompts taken out of its actions.
\<close>

definition afterOtherInstance :: "Env \<Rightarrow> GlobalState \<Rightarrow> GlobalState" where
  "afterOtherInstance env st =
     (case otherInstanceWrite env of
        None \<Rightarrow> st
      | Some v \<Rightarrow> st\<lparr>installedNightlyExtensionReleaseDate := v\<rparr>)"

definition fetchAction :: "Config \<Rightarrow> Event" where
  "fetchAction config =
     FetchArtifactReleaseInfo (src_repo (nightlyVsixSource config))
       (src_file (nightlyVsixSource config)) (src_tag (nightlyVsixSource config))"

definition downloadAction :: "Config \<Rightarrow> ArtifactReleaseInfo \<Rightarrow> Event" where
  "downloadAction config releaseInfo =
     DownloadArtifact releaseInfo (src_file (nightlyVsixSource config))
       (src_dir (nightlyVsixSource config)) ''nightly extension''"

definition vsixPath :: "Config \<Rightarrow> string" where
  "vsixPath config =
     path_join config (src_dir (nightlyVsixSource config)) (src_file (nightlyVsixSource config))"

definition stalePrompt :: Event where
  "stalePrompt =
     ShowInformationMessage
       (''The installed nightly version is most likely outdated. ''
        @ ''Do you want to download the latest nightly rust-analyzer extension ''
        @ ''version and reload the window now?'')
       [''Download now'', ''Cancel'']"

definition withoutPrompts :: "Run \<Rightarrow> Run" where
  "withoutPrompts r = (case r of (out, tr, st) \<Rightarrow> (out, filter (\<lambda>ev. \<not> isPrompt ev) tr, st))"

section \<open>Invocations in flight\<close>

text \<open>
  \<^verbatim>\<open>tryDownloadNightlyExtension\<close> once more, as the asynchronous function it is. It
  runs in segments, each from one \<^verbatim>\<open>await\<close> to the next: a segment takes the
  persisted state as it finds it, starts its actions, and either finishes the invocation
  or suspends it until the awaited call has answered. An error of an awaited call is
  thrown when the invocation is resumed, where the \<^verbatim>\<open>catch\<close> block logs it and
  returns; an error of the guard is thrown and caught within its segment.
\<close>

datatype Task = Finished Outcome | Suspended "GlobalState \<Rightarrow> Event list \<times> GlobalState \<times> Task"

type_synonym Segment = "GlobalState \<Rightarrow> Event list \<times> GlobalState \<times> Task"

definition logAction :: "Config \<Rightarrow> Err \<Rightarrow> Event" where
  "logAction config err =
     LogDownloadError err ''nightly extension'' (repo_name (src_repo (nightlyVsixSource config)))"

definition catchTask :: "Config \<Rightarrow> Err \<Rightarrow> Task" where
  "catchTask config err = Suspended (\<lambda>st. ([logAction config err], st, Finished Returned))"

definition reloadSegment :: "Config \<Rightarrow> Env \<Rightarrow> Segment" where
  "reloadSegment config env st =
     ([ReloadWindow], st,
      case reloadResult env of
        Some e \<Rightarrow> catchTask config e
      | None \<Rightarrow> Finished Restarted)"

definition unlinkSegment :: "Config \<Rightarrow> Env \<Rightarrow> Segment" where
  "unlinkSegment config env st =
     ([Unlink (vsixPath config)], st,
      case unlinkResult env of
        Some e \<Rightarrow> catchTask config e
      | None \<Rightarrow> Suspended (reloadSegment config env))"

definition persistSegment :: "Config \<Rightarrow> Env \<Rightarrow> ArtifactReleaseInfo \<Rightarrow> Segment" where
  "persistSegment config env releaseInfo st =
     (case persistResult env of
        Some e \<Rightarrow>
          ([StorageUpdate (DateStorage_stored env (Some (releaseDate releaseInfo)))], st,
           catchTask config e)
      | None \<Rightarrow>
          ([StorageUpdate (DateStorage_stored env (Some (releaseDate releaseInfo)))],
           st\<lparr>installedNightlyExtensionReleaseDate :=
                DateStorage_stored env (Some (releaseDate releaseInfo))\<rparr>,
           Suspended (unlinkSegment config env)))"

definition installSegment :: "Config \<Rightarrow> Env \<Rightarrow> ArtifactReleaseInfo \<Rightarrow> Segment" where
  "installSegment config env releaseInfo st =
     ([InstallExtensionFromVsix (vsixPath config)], st,
      case installResult env of
        Some e \<Rightarrow> catchTask config e
      | None \<Rightarrow> Suspended (persistSegment config env releaseInfo))"

definition guardSegment :: "Config \<Rightarrow> Env \<Rightarrow> Guard \<Rightarrow> ArtifactReleaseInfo \<Rightarrow> Segment" where
  "guardSegment config env shouldDownload releaseInfo st =
     (let st1 = afterOtherInstance env st
      in case shouldDownload releaseInfo st1 of
           (Inl e, evs) \<Rightarrow> (evs @ [logAction config e], st1, Finished Returned)
         | (Inr False, evs) \<Rightarrow> (evs, st1, Finished Returned)
         | (Inr True, evs) \<Rightarrow>
             (evs @ [downloadAction config releaseInfo], st1,
              case downloadResult env of
                Some e \<Rightarrow> catchTask config e
              | None \<Rightarrow> Suspended (installSegment config env releaseInfo)))"

definition tryDownloadNightlyExtension_async :: "Config \<Rightarrow> Env \<Rightarrow> Guard \<Rightarrow> Segment" where
  "tryDownloadNightlyExtension_async config env shouldDownload st =
     ([fetchAction config], st,
      case fetchResult env of
        Inl e \<Rightarrow> catchTask config e
      | Inr releaseInfo \<Rightarrow> Suspended (guardSegment config env shouldDownload releaseInfo))"

text \<open>
  The extension's process: the persisted state, the invocation in flight, if any, the
  actions performed and the outcomes of the finished invocations so far, and the flag
  \<open>entered\<close> of \<^verbatim>\<open>notReentrant\<close> (see below).
\<close>

record Process =
  entered :: bool
  store :: GlobalState
  inflight :: "Task option"
  performed :: "Event list"
  outcomes :: "Outcome list"

datatype Admission = Rejected | Admitted

text \<open>
  Modelled from the spec: the release of the flag of \<^verbatim>\<open>notReentrant\<close>, which the
  source imports from \<^verbatim>\<open>../util\<close>, a file that is not among the sources. The spec
  asks for "an explicit state flag [...] checked atomically at entry and released on every
  exit path (success, failure, or early abort)": when a segment finishes the invocation,
  whatever its outcome, the flag is released; when it suspends the invocation, the flag
  stays set.
\<close>

definition advance :: "Event list \<times> GlobalState \<times> Task \<Rightarrow> Process \<Rightarrow> Process" where
  "advance r p =
     (case r of
        (evs, st', Finished out) \<Rightarrow>
          p\<lparr>entered := False, store := st', inflight := None,
            performed := performed p @ evs, outcomes := outcomes p @ [out]\<rparr>
      | (evs, st', Suspended k) \<Rightarrow>
          p\<lparr>store := st', inflight := Some (Suspended k), performed := performed p @ evs\<rparr>)"

text \<open>
  Modelled from the spec: \<^verbatim>\<open>notReentrant\<close> (from \<^verbatim>\<open>../util\<close>, not among the
  sources), the wrapper of \<^verbatim>\<open>tryDownloadNightlyExtension\<close>. The spec: "a guarded
  async procedure must reject/ignore a nested invocation while one is already in flight
  in the same process". A call finds the flag set and is rejected, or sets it and runs
  the first segment of the function.
\<close>

definition notReentrant :: "Segment \<Rightarrow> Process \<Rightarrow> Admission \<times> Process" where
  "notReentrant fn p =
     (if entered p then (Rejected, p)
      else (Admitted, advance (fn (store p)) (p\<lparr>entered := True\<rparr>)))"

text \<open>
  The process takes a call of the guarded \<^verbatim>\<open>tryDownloadNightlyExtension\<close>, or
  resumes the invocation in flight by one segment.
\<close>

definition resume :: "Process \<Rightarrow> Process" where
  "resume p =
     (case inflight p of
        Some (Suspended k) \<Rightarrow> advance (k (store p)) p
      | _ \<Rightarrow> p)"

datatype Input = Call Config Env Guard | Resume

fun step :: "Process \<Rightarrow> Input \<Rightarrow> Process" where
  "step p (Call config env guard) =
     snd (notReentrant (tryDownloadNightlyExtension_async config env guard) p)"
| "step p Resume = resume p"

definition initialProcess :: "GlobalState \<Rightarrow> Process" where
  "initialProcess st = \<lparr> entered = False, store = st, inflight = None, performed = [],
                        outcomes = [] \<rparr>"

definition inFlight :: "Process \<Rightarrow> bool" where
  "inFlight p = (case inflight p of Some (Suspended k) \<Rightarrow> True | _ \<Rightarrow> False)"

section \<open>Concrete inputs\<close>

text \<open>
  A time zone with a constant offset, and the inputs at which the theorems below are
  evaluated: a nightly build (version \<^verbatim>\<open>0.2.20200309-nightly\<close>) and a stable build
  (version \<^verbatim>\<open>0.2.20200309\<close>) on Linux, both configured for the nightly channel, with
  the prompt enabled; a host where every call succeeds, the clock at
  2020-03-10T12:00:00Z in UTC, an engine that follows ECMA-262, and the user choosing
  "Download now".
\<close>

definition fixedOffset :: "int \<Rightarrow> TimeZone" where
  "fixedOffset ms t = ms"

text \<open>
  \<^verbatim>\<open>path.join\<close> on a POSIX platform, for a directory that is already normalised and
  has no trailing separator, and a plain file name.
\<close>

definition examplePathJoin :: "string \<Rightarrow> string \<Rightarrow> string" where
  "examplePathJoin d f = d @ ''/'' @ f"

definition exampleNightlyConfig :: Config where
  "exampleNightlyConfig =
     \<lparr> packageJsonVersion = ''0.2.20200309-nightly'',
       RA_LSP_DEBUG = None,
       process_platform = ''linux'',
       process_arch = ''x64'',
       os_homedir = ''/home/user'',
       globalStoragePath = ''/home/user/.config/Code/User/globalStorage/matklad.rust-analyzer'',
       path_join = examplePathJoin,
       serverPath = None,
       updatesChannel = Nightly,
       askBeforeDownload = True,
       extensionReleaseTag = ''nightly'' \<rparr>"

definition exampleStableConfig :: Config where
  "exampleStableConfig =
     \<lparr> packageJsonVersion = ''0.2.20200309'',
       RA_LSP_DEBUG = None,
       process_platform = ''linux'',
       process_arch = ''x64'',
       os_homedir = ''/home/user'',
       globalStoragePath = ''/home/user/.config/Code/User/globalStorage/matklad.rust-analyzer'',
       path_join = examplePathJoin,
       serverPath = None,
       updatesChannel = Nightly,
       askBeforeDownload = True,
       extensionReleaseTag = ''2020-03-09'' \<rparr>"

definition exampleReleaseInfo :: ArtifactReleaseInfo where
  "exampleReleaseInfo =
     \<lparr> releaseDate = 1583971200000,
       downloadUrl = ''https://github.com/rust-analyzer/rust-analyzer/releases/download/nightly/rust-analyzer.vsix'' \<rparr>"

definition exampleSameReleaseInfo :: ArtifactReleaseInfo where
  "exampleSameReleaseInfo =
     \<lparr> releaseDate = 1583020800000,
       downloadUrl = ''https://github.com/rust-analyzer/rust-analyzer/releases/download/nightly/rust-analyzer.vsix'' \<rparr>"

definition exampleEnv :: Env where
  "exampleEnv =
     \<lparr> now = 1583841600000,
       localTZA = fixedOffset 0,
       Date_of_toString = Date_toString_parse,
       userResponse = Some ''Download now'',
       clearResult = None,
       reinstallResult = None,
       reloadResult = None,
       fetchResult = Inr exampleReleaseInfo,
       otherInstanceWrite = None,
       downloadResult = None,
       installResult = None,
       persistResult = None,
       unlinkResult = None \<rparr>"

text \<open>
  Persisted release dates: 2020-03-01T00:00:00Z, nine days before the clock of
  \<open>exampleEnv\<close> (the release date of \<open>exampleSameReleaseInfo\<close>), and
  2020-03-12T00:00:00Z, two days after it (the release date of \<open>exampleReleaseInfo\<close>).
\<close>

definition exampleState :: GlobalState where
  "exampleState = \<lparr> installedNightlyExtensionReleaseDate = Some 1583020800000 \<rparr>"

definition exampleFutureState :: GlobalState where
  "exampleFutureState = \<lparr> installedNightlyExtensionReleaseDate = Some 1583971200000 \<rparr>"

section \<open>The calendar arithmetic is that of ECMA-262\<close>

lemma int_div_succ:
  fixes x k :: int
  assumes "0 < k"
  shows "(x + 1) div k = x div k + (if (x + 1) mod k = 0 then 1 else 0)"
proof (cases "x mod k + 1 = k")
  case True
  have d: "k * (x div k + 1) = k * (x div k) + k"
    by (simp add: algebra_simps)
  have "x + 1 = k * (x div k + 1) + 0"
    using True mult_div_mod_eq [of k x] d by linarith
  then have "(x + 1) div k = x div k + 1" and "(x + 1) mod k = 0"
    using assms by (metis add.right_neutral nonzero_mult_div_cancel_left less_irrefl, metis add.right_neutral mod_mult_self1_is_0)
  then show ?thesis by simp
next
  case False
  have b: "0 \<le> x mod k + 1" "x mod k + 1 < k"
    using assms False pos_mod_bound [of k x] pos_mod_sign [of k x] by linarith+
  have nz: "x mod k + 1 \<noteq> 0"
    using pos_mod_sign [OF assms, of x] by linarith
  have e: "x + 1 = k * (x div k) + (x mod k + 1)"
    using mult_div_mod_eq [of k x] by simp
  have "(x + 1) div k = x div k"
    using int_div_pos_eq [OF e b] .
  moreover have "(x + 1) mod k = x mod k + 1"
    using int_mod_pos_eq [OF e b] .
  ultimately show ?thesis using nz by simp
qed

lemma mod_shift_4: "(y - 1968) mod 4 = (y::int) mod 4"
proof -
  have "(y - 1968) mod 4 = (y + 4 * (-492)) mod 4" by simp
  also have "\<dots> = y mod 4" by (rule mod_mult_self2)
  finally show ?thesis .
qed

lemma mod_shift_100: "(y - 1900) mod 100 = (y::int) mod 100"
proof -
  have "(y - 1900) mod 100 = (y + 100 * (-19)) mod 100" by simp
  also have "\<dots> = y mod 100" by (rule mod_mult_self2)
  finally show ?thesis .
qed

lemma mod_shift_400: "(y - 1600) mod 400 = (y::int) mod 400"
proof -
  have "(y - 1600) mod 400 = (y + 400 * (-4)) mod 400" by simp
  also have "\<dots> = y mod 400" by (rule mod_mult_self2)
  finally show ?thesis .
qed

lemma mod_100_imp_mod_4: "(y::int) mod 100 = 0 \<Longrightarrow> y mod 4 = 0"
proof -
  assume "y mod 100 = 0"
  then have "100 dvd y" by (rule mod_0_imp_dvd)
  moreover have "(4::int) dvd 100" by simp
  ultimately have "4 dvd y" by (rule dvd_trans [rotated])
  then show "y mod 4 = 0" by (rule dvd_imp_mod_0)
qed

lemma mod_400_imp_mod_100: "(y::int) mod 400 = 0 \<Longrightarrow> y mod 100 = 0"
proof -
  assume "y mod 400 = 0"
  then have "400 dvd y" by (rule mod_0_imp_dvd)
  moreover have "(100::int) dvd 400" by simp
  ultimately have "100 dvd y" by (rule dvd_trans [rotated])
  then show "y mod 100 = 0" by (rule dvd_imp_mod_0)
qed

lemma DayFromYear_step: "DayFromYear (y + 1) = DayFromYear y + DaysInYear y"
proof -
  define A B C where "A = (y - 1969) div 4" and "B = (y - 1901) div 100"
    and "C = (y - 1601) div 400"
  have a: "(y + 1 - 1969) div 4 = A + (if y mod 4 = 0 then 1 else 0)"
    unfolding A_def
    using int_div_succ [of 4 "y - 1969"] mod_shift_4 [of y] by (simp add: algebra_simps)
  have b: "(y + 1 - 1901) div 100 = B + (if y mod 100 = 0 then 1 else 0)"
    unfolding B_def
    using int_div_succ [of 100 "y - 1901"] mod_shift_100 [of y] by (simp add: algebra_simps)
  have c: "(y + 1 - 1601) div 400 = C + (if y mod 400 = 0 then 1 else 0)"
    unfolding C_def
    using int_div_succ [of 400 "y - 1601"] mod_shift_400 [of y] by (simp add: algebra_simps)
  have l: "DayFromYear y = 365 * (y - 1970) + A - B + C"
    unfolding DayFromYear_def A_def B_def C_def ..
  have r: "DayFromYear (y + 1) = 365 * (y + 1 - 1970)
      + (A + (if y mod 4 = 0 then 1 else 0))
      - (B + (if y mod 100 = 0 then 1 else 0))
      + (C + (if y mod 400 = 0 then 1 else 0))"
    unfolding DayFromYear_def a b c ..
  show ?thesis
  proof (cases "y mod 4 = 0")
    case False
    then have n100: "y mod 100 \<noteq> 0"
      using mod_100_imp_mod_4 [of y] by (cases "y mod 100 = 0") simp_all
    then have "y mod 400 \<noteq> 0"
      using mod_400_imp_mod_100 [of y] by (cases "y mod 400 = 0") simp_all
    with False n100 show ?thesis unfolding l r DaysInYear_def by simp
  next
    case m4: True
    show ?thesis
    proof (cases "y mod 100 = 0")
      case False
      then have "y mod 400 \<noteq> 0"
        using mod_400_imp_mod_100 [of y] by (cases "y mod 400 = 0") simp_all
      with False m4 show ?thesis unfolding l r DaysInYear_def by simp
    next
      case True
      with m4 show ?thesis unfolding l r DaysInYear_def by simp
    qed
  qed
qed

lemma DaysInYear_pos: "0 < DaysInYear y"
  by (simp add: DaysInYear_def)

lemma DayFromYear_mono: "y \<le> z \<Longrightarrow> DayFromYear y \<le> DayFromYear z"
proof (induction z rule: int_ge_induct)
  case base
  show ?case by simp
next
  case (step i)
  then show ?case using DayFromYear_step [of i] DaysInYear_pos [of i] by linarith
qed

lemma div_lower: "0 < k \<Longrightarrow> x - (k - 1) \<le> k * (x div k)" for x k :: int
  using mult_div_mod_eq [of k x] pos_mod_bound [of k x] by linarith

lemma div_upper: "0 < k \<Longrightarrow> k * (x div k) \<le> x" for x k :: int
  using mult_div_mod_eq [of k x] pos_mod_sign [of k x] by linarith

lemma DayFromYear_bounds:
  "146097 * (y - 1970) - 506 \<le> 400 * DayFromYear y"
  "400 * DayFromYear y \<le> 146097 * (y - 1970) + 589"
proof -
  define A B C where "A = (y - 1969) div 4" and "B = (y - 1901) div 100"
    and "C = (y - 1601) div 400"
  have l: "DayFromYear y = 365 * (y - 1970) + A - B + C"
    unfolding DayFromYear_def A_def B_def C_def ..
  have a: "y - 1969 - 3 \<le> 4 * A" "4 * A \<le> y - 1969"
    unfolding A_def using div_lower [of 4 "y - 1969"] div_upper [of 4 "y - 1969"] by simp_all
  have b: "y - 1901 - 99 \<le> 100 * B" "100 * B \<le> y - 1901"
    unfolding B_def using div_lower [of 100 "y - 1901"] div_upper [of 100 "y - 1901"] by simp_all
  have c: "y - 1601 - 399 \<le> 400 * C" "400 * C \<le> y - 1601"
    unfolding C_def using div_lower [of 400 "y - 1601"] div_upper [of 400 "y - 1601"] by simp_all
  show "146097 * (y - 1970) - 506 \<le> 400 * DayFromYear y"
    unfolding l using a b c by (simp add: algebra_simps)
  show "400 * DayFromYear y \<le> 146097 * (y - 1970) + 589"
    unfolding l using a b c by (simp add: algebra_simps)
qed

lemma YearFromDay_spec:
  "DayFromYear (YearFromDay d) \<le> d" "d < DayFromYear (YearFromDay d + 1)"
proof -
  define y0 where "y0 = 1970 + (400 * d) div 146097"
  define q where "q = (400 * d) div 146097"
  have y0: "y0 = 1970 + q" by (simp add: y0_def q_def)
  have q: "400 * d - 146096 \<le> 146097 * q" "146097 * q \<le> 400 * d"
    unfolding q_def using div_lower [of 146097 "400 * d"] div_upper [of 146097 "400 * d"]
    by simp_all
  have "400 * DayFromYear (y0 - 1) \<le> 146097 * q - 145508"
    using DayFromYear_bounds(2) [of "y0 - 1"] by (simp add: y0)
  then have lo: "DayFromYear (y0 - 1) \<le> d"
    using q by linarith
  have "146097 * q + 291688 \<le> 400 * DayFromYear (y0 + 1 + 1)"
    using DayFromYear_bounds(1) [of "y0 + 1 + 1"] by (simp add: y0)
  then have hi: "d < DayFromYear (y0 + 1 + 1)"
    using q by linarith
  have e: "YearFromDay d =
     (if DayFromYear (y0 + 1) \<le> d then y0 + 1
      else if DayFromYear y0 \<le> d then y0 else y0 - 1)"
    unfolding YearFromDay_def y0_def Let_def ..
  show "DayFromYear (YearFromDay d) \<le> d"
    unfolding e using lo by simp
  show "d < DayFromYear (YearFromDay d + 1)"
    unfolding e using hi by simp
qed

lemma YearFromDay_largest: "DayFromYear y \<le> d \<Longrightarrow> y \<le> YearFromDay d"
proof (rule ccontr)
  assume a: "DayFromYear y \<le> d" and "\<not> y \<le> YearFromDay d"
  then have "YearFromDay d + 1 \<le> y" by simp
  then have "DayFromYear (YearFromDay d + 1) \<le> DayFromYear y" by (rule DayFromYear_mono)
  with a YearFromDay_spec(2) [of d] show False by linarith
qed

text \<open>
  The calendar date of a time value determines its day number: \<^verbatim>\<open>MakeDay\<close> of the
  year, month and date of \<open>t\<close> is the day of \<open>t\<close>.
\<close>

lemma MonthFromTime_range: "0 \<le> MonthFromTime t \<and> MonthFromTime t \<le> 11"
  by (simp add: MonthFromTime_def Let_def)

lemma DateFromTime_eq:
  "DateFromTime t = DayWithinYear t - DaysBeforeMonth (InLeapYear t) (MonthFromTime t) + 1"
  by (simp add: DateFromTime_def DaysBeforeMonth_def MonthFromTime_def Let_def)

lemma MakeDay_of_time:
  "MakeDay (YearFromTime t) (MonthFromTime t) (DateFromTime t) = Day t"
proof -
  have d: "MonthFromTime t div 12 = 0" and m: "MonthFromTime t mod 12 = MonthFromTime t"
    using MonthFromTime_range [of t] by simp_all
  show ?thesis
    unfolding MakeDay_def Let_def d m DateFromTime_eq
    by (simp add: InLeapYear_def DayWithinYear_def)
qed

lemma calendar_date_of_Day:
  "Day s = Day t \<Longrightarrow>
   YearFromTime s = YearFromTime t \<and> MonthFromTime s = MonthFromTime t
   \<and> DateFromTime s = DateFromTime t"
  by (simp add: YearFromTime_def MonthFromTime_def DateFromTime_def DayWithinYear_def
      InLeapYear_def)

text \<open>
  \<^verbatim>\<open>Date.UTC\<close> of the calendar date of \<open>t\<close> is the midnight that begins the day of
  \<open>t\<close>, when that midnight is a time value and the year is not one of 0 to 99; for a year
  from 0 to 99 it is some midnight of the twentieth century.
\<close>

lemma Date_UTC_of_time:
  assumes "\<not> (0 \<le> YearFromTime t \<and> YearFromTime t \<le> 99)"
    and "\<bar>Day t * msPerDay\<bar> \<le> 8640000000000000"
  shows "Date_UTC (YearFromTime t) (MonthFromTime t) (DateFromTime t) = Some (Day t * msPerDay)"
proof -
  from assms(1) have y: "(if 0 \<le> YearFromTime t \<and> YearFromTime t \<le> 99
                 then 1900 + YearFromTime t else YearFromTime t) = YearFromTime t"
    by (rule if_not_P)
  from assms(2) have c: "TimeClip (Day t * msPerDay) = Some (Day t * msPerDay)"
    by (simp add: TimeClip_def)
  show ?thesis
    unfolding Date_UTC_def Let_def y MakeDay_of_time c ..
qed

lemma DaysInYear_le: "DaysInYear y \<le> 366"
  by (simp add: DaysInYear_def)

lemma DayWithinYear_range: "0 \<le> DayWithinYear t \<and> DayWithinYear t < 366"
  unfolding DayWithinYear_def YearFromTime_def
  using YearFromDay_spec [of "Day t"] DayFromYear_step [of "YearFromDay (Day t)"]
    DaysInYear_le [of "YearFromDay (Day t)"]
  by linarith

lemma InLeapYear_range: "0 \<le> InLeapYear t \<and> InLeapYear t \<le> 1"
  by (simp add: InLeapYear_def)

lemma DaysBeforeMonth_range:
  "0 \<le> l \<Longrightarrow> l \<le> 1 \<Longrightarrow> 0 \<le> DaysBeforeMonth l mn \<and> DaysBeforeMonth l mn \<le> 335"
  by (simp add: DaysBeforeMonth_def)

lemma DateFromTime_range: "- 335 \<le> DateFromTime t \<and> DateFromTime t \<le> 366"
  unfolding DateFromTime_eq
  using DayWithinYear_range [of t] InLeapYear_range [of t]
    DaysBeforeMonth_range [of "InLeapYear t" "MonthFromTime t"]
  by linarith

lemma Date_UTC_two_digit_year:
  assumes "0 \<le> YearFromTime t" and "YearFromTime t \<le> 99"
  shows "\<exists>v. Date_UTC (YearFromTime t) (MonthFromTime t) (DateFromTime t) = Some v"
proof -
  define yr where "yr = 1900 + YearFromTime t"
  define l :: int where "l = (if DaysInYear yr = 366 then 1 else 0)"
  have d: "MonthFromTime t div 12 = 0" and m: "MonthFromTime t mod 12 = MonthFromTime t"
    using MonthFromTime_range [of t] by simp_all
  have md: "MakeDay yr (MonthFromTime t) (DateFromTime t)
            = DayFromYear yr + DaysBeforeMonth l (MonthFromTime t) + DateFromTime t - 1"
    unfolding MakeDay_def Let_def d m l_def by simp
  have "- 10227296 \<le> 400 * DayFromYear yr" and "400 * DayFromYear yr \<le> 14461192"
    using DayFromYear_bounds [of yr] assms by (simp_all add: yr_def)
  then have y: "- 25569 \<le> DayFromYear yr" "DayFromYear yr \<le> 36153"
    by linarith+
  have "0 \<le> l" and "l \<le> 1"
    by (simp_all add: l_def)
  then have b: "0 \<le> DaysBeforeMonth l (MonthFromTime t)"
    "DaysBeforeMonth l (MonthFromTime t) \<le> 335"
    using DaysBeforeMonth_range [of l "MonthFromTime t"] by simp_all
  have r: "- 100000000 \<le> MakeDay yr (MonthFromTime t) (DateFromTime t)"
    "MakeDay yr (MonthFromTime t) (DateFromTime t) \<le> 100000000"
    unfolding md using y b DateFromTime_range [of t] by linarith+
  then have "\<bar>MakeDay yr (MonthFromTime t) (DateFromTime t) * msPerDay\<bar> \<le> 8640000000000000"
    by (simp add: msPerDay_def abs_le_iff)
  then have "TimeClip (MakeDay yr (MonthFromTime t) (DateFromTime t) * msPerDay)
             = Some (MakeDay yr (MonthFromTime t) (DateFromTime t) * msPerDay)"
    by (simp add: TimeClip_def)
  then show ?thesis
    using assms by (simp add: Date_UTC_def yr_def)
qed

lemma Date_UTC_of_time_defined:
  assumes "\<bar>Day t * msPerDay\<bar> \<le> 8640000000000000"
  shows "\<exists>v. Date_UTC (YearFromTime t) (MonthFromTime t) (DateFromTime t) = Some v"
proof (cases "0 \<le> YearFromTime t \<and> YearFromTime t \<le> 99")
  case True
  then show ?thesis by (simp add: Date_UTC_two_digit_year)
next
  case False
  then show ?thesis using Date_UTC_of_time [OF False assms] by simp
qed

section \<open>\<^verbatim>\<open>diffInHours\<close> counts local calendar days\<close>

lemmas calendar_defs =
  diffInHours_def Date_UTC_def TimeClip_def MakeDay_def DaysBeforeMonth_def getFullYear_def
  getMonth_def getDate_def LocalTime_def YearFromTime_def MonthFromTime_def DateFromTime_def
  DayWithinYear_def InLeapYear_def YearFromDay_def DayFromYear_def DaysInYear_def Day_def
  msPerDay_def fixedOffset_def Let_def

text \<open>
  C2, as stated, fails: with the host one hour east of UTC, 2020-03-10T22:00:00Z and
  2020-03-10T23:30:00Z fall on the same UTC calendar date, but on two local calendar
  dates (10 and 11 March), and \<^verbatim>\<open>diffInHours\<close> of them is -24, not 0.
\<close>

theorem diffInHours_same_UTC_date_counterexample:
  "Day 1583877600000 = Day 1583883000000
   \<and> diffInHours (fixedOffset 3600000) 1583877600000 1583883000000 = Some (- 24)
   \<and> diffInHours (fixedOffset 3600000) 1583877600000 1583883000000 \<noteq> Some 0"
  by (simp add: calendar_defs)

text \<open>
  C2, amended: \<^verbatim>\<open>diffInHours\<close> compares the calendar dates of its two arguments in the
  host's local time, for dates whose local calendar day begins, read as a UTC midnight,
  at a time value (at most \<open>8.64 \<times> 10\<^sup>1\<^sup>5\<close> milliseconds from the epoch; outside that
  \<^verbatim>\<open>Date.UTC\<close> is \<^verbatim>\<open>NaN\<close>). For two such timestamps on the same local calendar
  date, whatever their clock times, the result is 0. For two such timestamps whose local
  calendar dates are exactly one day apart, and whose local years are not among the
  years 0 to 99 (which \<^verbatim>\<open>Date.UTC\<close> reads as 1900 to 1999), the result is 24 in
  absolute value.
\<close>

theorem diffInHours_local_calendar_days:
  "(Day (LocalTime tza a) = Day (LocalTime tza b)
      \<and> \<bar>Day (LocalTime tza a) * msPerDay\<bar> \<le> 8640000000000000
    \<longrightarrow> diffInHours tza a b = Some 0)
   \<and> ((Day (LocalTime tza a) = Day (LocalTime tza b) + 1
         \<or> Day (LocalTime tza a) + 1 = Day (LocalTime tza b))
        \<and> \<bar>Day (LocalTime tza a) * msPerDay\<bar> \<le> 8640000000000000
        \<and> \<bar>Day (LocalTime tza b) * msPerDay\<bar> \<le> 8640000000000000
        \<and> \<not> (0 \<le> getFullYear tza a \<and> getFullYear tza a \<le> 99)
        \<and> \<not> (0 \<le> getFullYear tza b \<and> getFullYear tza b \<le> 99)
      \<longrightarrow> (\<exists>h. diffInHours tza a b = Some h \<and> \<bar>h\<bar> = 24))"
proof (intro conjI impI)
  assume h: "Day (LocalTime tza a) = Day (LocalTime tza b)
      \<and> \<bar>Day (LocalTime tza a) * msPerDay\<bar> \<le> 8640000000000000"
  then obtain v where v: "Date_UTC (YearFromTime (LocalTime tza a))
      (MonthFromTime (LocalTime tza a)) (DateFromTime (LocalTime tza a)) = Some v"
    using Date_UTC_of_time_defined [of "LocalTime tza a"] by blast
  from h have "Day (LocalTime tza b) = Day (LocalTime tza a)"
    by simp
  from calendar_date_of_Day [OF this] v show "diffInHours tza a b = Some 0"
    by (simp add: diffInHours_def getFullYear_def getMonth_def getDate_def)
next
  assume h: "(Day (LocalTime tza a) = Day (LocalTime tza b) + 1
         \<or> Day (LocalTime tza a) + 1 = Day (LocalTime tza b))
        \<and> \<bar>Day (LocalTime tza a) * msPerDay\<bar> \<le> 8640000000000000
        \<and> \<bar>Day (LocalTime tza b) * msPerDay\<bar> \<le> 8640000000000000
        \<and> \<not> (0 \<le> getFullYear tza a \<and> getFullYear tza a \<le> 99)
        \<and> \<not> (0 \<le> getFullYear tza b \<and> getFullYear tza b \<le> 99)"
  then have ua: "Date_UTC (getFullYear tza a) (getMonth tza a) (getDate tza a)
      = Some (Day (LocalTime tza a) * msPerDay)"
    unfolding getFullYear_def getMonth_def getDate_def by (simp add: Date_UTC_of_time)
  from h have ub: "Date_UTC (getFullYear tza b) (getMonth tza b) (getDate tza b)
      = Some (Day (LocalTime tza b) * msPerDay)"
    unfolding getFullYear_def getMonth_def getDate_def by (simp add: Date_UTC_of_time)
  have e: "diffInHours tza a b
      = Some (real_of_int (Day (LocalTime tza a) * msPerDay - Day (LocalTime tza b) * msPerDay)
              / (1000 * 60 * 60))"
    unfolding diffInHours_def Let_def ua ub by simp
  from h have "Day (LocalTime tza a) = Day (LocalTime tza b) + 1
      \<or> Day (LocalTime tza b) = Day (LocalTime tza a) + 1"
    by auto
  then show "\<exists>h. diffInHours tza a b = Some h \<and> \<bar>h\<bar> = 24"
  proof
    assume "Day (LocalTime tza a) = Day (LocalTime tza b) + 1"
    then show ?thesis unfolding e by (simp add: msPerDay_def algebra_simps)
  next
    assume "Day (LocalTime tza b) = Day (LocalTime tza a) + 1"
    then show ?thesis unfolding e by (simp add: msPerDay_def algebra_simps)
  qed
qed

theorem diffInHours_local_calendar_days_witness:
  "Day (LocalTime (fixedOffset 3600000) 1583877600000)
     = Day (LocalTime (fixedOffset 3600000) 1583874000000)
   \<and> \<bar>Day (LocalTime (fixedOffset 3600000) 1583877600000) * msPerDay\<bar> \<le> 8640000000000000
   \<and> diffInHours (fixedOffset 3600000) 1583877600000 1583874000000 = Some 0
   \<and> Day (LocalTime (fixedOffset 3600000) 1583883000000)
     = Day (LocalTime (fixedOffset 3600000) 1583877600000) + 1
   \<and> \<bar>Day (LocalTime (fixedOffset 3600000) 1583883000000) * msPerDay\<bar> \<le> 8640000000000000
   \<and> getFullYear (fixedOffset 3600000) 1583883000000 = 2020
   \<and> getFullYear (fixedOffset 3600000) 1583877600000 = 2020
   \<and> (\<exists>h. diffInHours (fixedOffset 3600000) 1583883000000 1583877600000 = Some h
          \<and> \<bar>h\<bar> = 24)
   \<and> (\<exists>h. diffInHours (fixedOffset 3600000) 1583877600000 1583883000000 = Some h
          \<and> \<bar>h\<bar> = 24)"
proof -
  have d1: "Day (LocalTime (fixedOffset 3600000) 1583877600000) = 18331"
    and d2: "Day (LocalTime (fixedOffset 3600000) 1583874000000) = 18331"
    and d3: "Day (LocalTime (fixedOffset 3600000) 1583883000000) = 18332"
    by (simp_all add: Day_def LocalTime_def fixedOffset_def msPerDay_def)
  have y1: "getFullYear (fixedOffset 3600000) 1583877600000 = 2020"
    unfolding getFullYear_def YearFromTime_def d1
    by (simp add: YearFromDay_def DayFromYear_def Let_def)
  have y3: "getFullYear (fixedOffset 3600000) 1583883000000 = 2020"
    unfolding getFullYear_def YearFromTime_def d3
    by (simp add: YearFromDay_def DayFromYear_def Let_def)
  have r: "\<bar>18331 * msPerDay\<bar> \<le> 8640000000000000" "\<bar>18332 * msPerDay\<bar> \<le> 8640000000000000"
    by (simp_all add: msPerDay_def)
  show ?thesis
    using diffInHours_local_calendar_days [of "fixedOffset 3600000" 1583877600000 1583874000000]
      diffInHours_local_calendar_days [of "fixedOffset 3600000" 1583883000000 1583877600000]
      diffInHours_local_calendar_days [of "fixedOffset 3600000" 1583877600000 1583883000000]
    by (simp add: d1 d2 d3 y1 y3 r)
qed

text \<open>
  The two restrictions are needed. The years 0 to 99: 0100-01-01 is the day after
  0099-12-31, yet \<^verbatim>\<open>Date.UTC\<close> reads the year 99 as 1999 and the difference is far
  from 24. The range: the earliest time value and the millisecond after it fall on one
  local calendar date twelve hours west of UTC, that date at midnight UTC is before
  the earliest time value, and \<^verbatim>\<open>diffInHours\<close> is \<^verbatim>\<open>NaN\<close>.
\<close>

lemma diffInHours_two_digit_year_example:
  "Day (LocalTime (fixedOffset 0) (- 59011459200000))
     = Day (LocalTime (fixedOffset 0) (- 59011545600000)) + 1
   \<and> getFullYear (fixedOffset 0) (- 59011459200000) = 100
   \<and> getFullYear (fixedOffset 0) (- 59011545600000) = 99
   \<and> diffInHours (fixedOffset 0) (- 59011459200000) (- 59011545600000) = Some (- 16655016)"
  by (simp add: calendar_defs)

lemma diffInHours_out_of_range_example:
  "Day (LocalTime (fixedOffset (- 43200000)) (- 8640000000000000))
     = Day (LocalTime (fixedOffset (- 43200000)) (- 8640000000000000 + 1))
   \<and> getFullYear (fixedOffset (- 43200000)) (- 8640000000000000) = - 271821
   \<and> getMonth (fixedOffset (- 43200000)) (- 8640000000000000) = 3
   \<and> getDate (fixedOffset (- 43200000)) (- 8640000000000000) = 19
   \<and> Date_UTC (- 271821) 3 19 = None
   \<and> diffInHours (fixedOffset (- 43200000)) (- 8640000000000000) (- 8640000000000000 + 1)
     = None"
  by (simp add: calendar_defs)

section \<open>The channel of a version tag\<close>

lemma not_isDigit_dot: "\<not> isDigit CHR ''.''"
  by (simp add: isDigit_def)

lemma not_isDigit_y: "\<not> isDigit CHR ''y''"
  by (simp add: isDigit_def)

lemma skipNumberDot_number:
  assumes "n \<noteq> []" and "list_all isDigit n"
  shows "skipNumberDot (n @ CHR ''.'' # rest) = Some rest"
proof -
  have a: "\<forall>x\<in>set n. isDigit x"
    using assms(2) by (simp add: list_all_iff)
  have t: "takeWhile isDigit (n @ CHR ''.'' # rest) = n"
    using a by (simp add: not_isDigit_dot)
  have d: "dropWhile isDigit (n @ CHR ''.'' # rest) = CHR ''.'' # rest"
    using a by (simp add: not_isDigit_dot)
  show ?thesis
    using assms(1) by (simp add: skipNumberDot_def t d)
qed

lemma endsWith_last:
  assumes "endsWith s t" and "t \<noteq> []"
  shows "last s = last t"
proof -
  from assms(1) have "drop (length s - length t) s = t"
    by (simp add: endsWith_def)
  then have "s = take (length s - length t) s @ t"
    by (metis append_take_drop_id)
  then have "last s = last (take (length s - length t) s @ t)"
    by simp
  with assms(2) show ?thesis by simp
qed

lemma release_version_not_nightly:
  assumes "dd \<noteq> []" and "list_all isDigit dd"
  shows "\<not> endsWith (p @ dd) NIGHTLY_TAG"
proof
  assume "endsWith (p @ dd) NIGHTLY_TAG"
  then have "last (p @ dd) = last NIGHTLY_TAG"
    by (rule endsWith_last) (simp add: NIGHTLY_TAG_def)
  then have "last dd = CHR ''y''"
    using assms(1) by (simp add: NIGHTLY_TAG_def)
  moreover have "isDigit (last dd)"
    using assms by (simp add: list_all_iff)
  ultimately show False
    using not_isDigit_y by simp
qed

lemma realVersionRegexp_match_release:
  assumes "n1 \<noteq> []" "list_all isDigit n1" "n2 \<noteq> []" "list_all isDigit n2"
    and "length yyyy = 4" "list_all isDigit yyyy"
    and "length mm = 2" "list_all isDigit mm"
    and "length dd = 2" "list_all isDigit dd"
  shows "realVersionRegexp_match (n1 @ ''.'' @ n2 @ ''.'' @ yyyy @ mm @ dd @ suffix)
         = Some (yyyy, mm, dd)"
proof -
  have s1: "skipNumberDot (n1 @ CHR ''.'' # n2 @ CHR ''.'' # yyyy @ mm @ dd @ suffix)
            = Some (n2 @ CHR ''.'' # yyyy @ mm @ dd @ suffix)"
    using assms(1,2) by (rule skipNumberDot_number)
  have s2: "skipNumberDot (n2 @ CHR ''.'' # yyyy @ mm @ dd @ suffix)
            = Some (yyyy @ mm @ dd @ suffix)"
    using assms(3,4) by (rule skipNumberDot_number)
  have t8: "take 8 (yyyy @ mm @ dd @ suffix) = yyyy @ mm @ dd"
    using assms(5,7,9) by simp
  have "list_all isDigit (yyyy @ mm @ dd)"
    using assms(6,8,10) by simp
  then show ?thesis
    using assms(5,7,9) by (simp add: realVersionRegexp_match_def s1 s2 t8)
qed

text \<open>
  C3: a \<^verbatim>\<open>Config\<close> made from a version that ends in \<^verbatim>\<open>nightly\<close> has the release
  tag \<^verbatim>\<open>nightly\<close> and is on the Nightly channel; one made from a version of the form
  \<^verbatim>\<open>N.N.YYYYMMDD\<close> (\<open>N\<close> one or more digits) has the release tag
  \<^verbatim>\<open>YYYY-MM-DD\<close> and is on the Stable channel.
\<close>

theorem channel_of_version_tag:
  "(endsWith (packageJsonVersion h) NIGHTLY_TAG \<longrightarrow>
      (\<exists>c. Config_new h = Inr c \<and> extensionReleaseTag c = NIGHTLY_TAG
           \<and> installedExtensionUpdateChannel c = Nightly))
   \<and> (n1 \<noteq> [] \<and> list_all isDigit n1 \<and> n2 \<noteq> [] \<and> list_all isDigit n2
        \<and> length yyyy = 4 \<and> list_all isDigit yyyy
        \<and> length mm = 2 \<and> list_all isDigit mm
        \<and> length dd = 2 \<and> list_all isDigit dd
        \<and> packageJsonVersion h = n1 @ ''.'' @ n2 @ ''.'' @ yyyy @ mm @ dd \<longrightarrow>
      (\<exists>c. Config_new h = Inr c \<and> extensionReleaseTag c = yyyy @ ''-'' @ mm @ ''-'' @ dd
           \<and> installedExtensionUpdateChannel c = Stable))"
proof (intro conjI impI)
  assume "endsWith (packageJsonVersion h) NIGHTLY_TAG"
  then show "\<exists>c. Config_new h = Inr c \<and> extensionReleaseTag c = NIGHTLY_TAG
           \<and> installedExtensionUpdateChannel c = Nightly"
    by (simp add: Config_new_def extensionReleaseTag_init_def installedExtensionUpdateChannel_def)
next
  assume a: "n1 \<noteq> [] \<and> list_all isDigit n1 \<and> n2 \<noteq> [] \<and> list_all isDigit n2
        \<and> length yyyy = 4 \<and> list_all isDigit yyyy
        \<and> length mm = 2 \<and> list_all isDigit mm
        \<and> length dd = 2 \<and> list_all isDigit dd
        \<and> packageJsonVersion h = n1 @ ''.'' @ n2 @ ''.'' @ yyyy @ mm @ dd"
  then have v: "packageJsonVersion h = (n1 @ ''.'' @ n2 @ ''.'' @ yyyy @ mm) @ dd"
    by simp
  from a have "dd \<noteq> []" by auto
  with a have nn: "\<not> endsWith (packageJsonVersion h) NIGHTLY_TAG"
    unfolding v by (intro release_version_not_nightly) simp_all
  from a have m: "realVersionRegexp_match (packageJsonVersion h) = Some (yyyy, mm, dd)"
    using realVersionRegexp_match_release [of n1 n2 yyyy mm dd "[]"] by simp
  from a have "length (yyyy @ ''-'' @ mm @ ''-'' @ dd) \<noteq> length NIGHTLY_TAG"
    by (simp add: NIGHTLY_TAG_def)
  then have ne: "yyyy @ ''-'' @ mm @ ''-'' @ dd \<noteq> NIGHTLY_TAG"
    by metis
  show "\<exists>c. Config_new h = Inr c \<and> extensionReleaseTag c = yyyy @ ''-'' @ mm @ ''-'' @ dd
           \<and> installedExtensionUpdateChannel c = Stable"
    using ne by (simp add: Config_new_def extensionReleaseTag_init_def nn m
        installedExtensionUpdateChannel_def)
qed

theorem channel_of_version_tag_witness:
  "endsWith (packageJsonVersion exampleNightlyConfig) NIGHTLY_TAG
   \<and> (\<exists>c. Config_new (Host.truncate exampleNightlyConfig) = Inr c
          \<and> extensionReleaseTag c = NIGHTLY_TAG
          \<and> installedExtensionUpdateChannel c = Nightly)
   \<and> packageJsonVersion exampleStableConfig = ''0'' @ ''.'' @ ''2'' @ ''.'' @ ''2020'' @ ''03'' @ ''09''
   \<and> (\<exists>c. Config_new (Host.truncate exampleStableConfig) = Inr c
          \<and> extensionReleaseTag c = ''2020-03-09''
          \<and> installedExtensionUpdateChannel c = Stable)"
proof -
  have n: "endsWith (packageJsonVersion (Host.truncate exampleNightlyConfig)) NIGHTLY_TAG"
    by (simp add: exampleNightlyConfig_def Host.truncate_def endsWith_def NIGHTLY_TAG_def)
  have s: "packageJsonVersion (Host.truncate exampleStableConfig)
             = ''0'' @ ''.'' @ ''2'' @ ''.'' @ ''2020'' @ ''03'' @ ''09''"
    by (simp add: exampleStableConfig_def Host.truncate_def)
  have d: "list_all isDigit ''0''" "list_all isDigit ''2''" "list_all isDigit ''2020''"
    "list_all isDigit ''03''" "list_all isDigit ''09''"
    by (simp_all add: isDigit_def)
  show ?thesis
    using
      channel_of_version_tag [where h = "Host.truncate exampleNightlyConfig"]
      channel_of_version_tag [where h = "Host.truncate exampleStableConfig" and ?n1.0 = "''0''"
        and ?n2.0 = "''2''" and yyyy = "''2020''" and mm = "''03''" and dd = "''09''"]
      n s d
    by (simp add: Host.truncate_def)
qed

section \<open>The decisions of \<^verbatim>\<open>ensureProperExtensionVersion\<close>\<close>

lemma after_simp: "after evs (out, tr, st) = (out, evs @ tr, st)"
  by (simp add: after_def)

lemma after_Nil: "after [] r = r"
  by (cases r) (simp add: after_def)

text \<open>
  C8: when the server source is an explicit path, the run returns at once: it has no
  action at all (no prompt, no fetch, no write to the persisted state, no reload) and
  leaves the persisted state as it was, whatever the installed and the desired channels.
\<close>

theorem explicit_path_no_action:
  "serverSource config = Some (ExplicitPath p) \<Longrightarrow>
   ensureProperExtensionVersion config env st = (Returned, [], st)"
  by (simp add: ensureProperExtensionVersion_def isExplicitPath_def)

theorem explicit_path_no_action_witness:
  "serverSource (exampleNightlyConfig\<lparr>serverPath := Some ''~/bin/rust-analyzer''\<rparr>)
     = Some (ExplicitPath ''/home/user/bin/rust-analyzer'')
   \<and> ensureProperExtensionVersion
       (exampleNightlyConfig\<lparr>serverPath := Some ''~/bin/rust-analyzer''\<rparr>)
       exampleEnv exampleState
     = (Returned, [], exampleState)"
proof -
  have s: "serverSource (exampleNightlyConfig\<lparr>serverPath := Some ''~/bin/rust-analyzer''\<rparr>)
     = Some (ExplicitPath ''/home/user/bin/rust-analyzer'')"
    by (simp add: serverSource_def exampleNightlyConfig_def replaceTildeWithHomeDir_def
        startsWith_def)
  show ?thesis
    using s explicit_path_no_action [OF s, of exampleEnv exampleState] by simp
qed

text \<open>
  C7: with the installed and the desired channel both Nightly and no persisted release
  date, the run shows the error message and throws; it has no other action (no fetch,
  no install, no reload).
\<close>

theorem missing_release_date_fatal:
  assumes "\<not> isExplicitPath (serverSource config)"
    and "installedExtensionUpdateChannel config = Nightly"
    and "updatesChannel config = Nightly"
    and "DateStorage_get st = None"
  shows "ensureProperExtensionVersion config env st =
          (Threw ''Nightly release date was not set in globalStorage'',
           [ShowErrorMessage releaseDateMissingMessage], st)"
  using assms
  by (simp add: ensureProperExtensionVersion_def ensureProperExtensionVersion_decide_def)

theorem missing_release_date_fatal_witness:
  "\<not> isExplicitPath (serverSource exampleNightlyConfig)
   \<and> installedExtensionUpdateChannel exampleNightlyConfig = Nightly
   \<and> updatesChannel exampleNightlyConfig = Nightly
   \<and> DateStorage_get \<lparr>installedNightlyExtensionReleaseDate = None\<rparr> = None
   \<and> ensureProperExtensionVersion exampleNightlyConfig exampleEnv
       \<lparr>installedNightlyExtensionReleaseDate = None\<rparr>
     = (Threw ''Nightly release date was not set in globalStorage'',
        [ShowErrorMessage releaseDateMissingMessage],
        \<lparr>installedNightlyExtensionReleaseDate = None\<rparr>)"
proof -
  have a: "\<not> isExplicitPath (serverSource exampleNightlyConfig)"
    by (simp add: isExplicitPath_def serverSource_def exampleNightlyConfig_def
        prebuiltServerFileName_def)
  have b: "installedExtensionUpdateChannel exampleNightlyConfig = Nightly"
    by (simp add: installedExtensionUpdateChannel_def exampleNightlyConfig_def NIGHTLY_TAG_def)
  have c: "updatesChannel exampleNightlyConfig = Nightly"
    by (simp add: exampleNightlyConfig_def)
  have d: "DateStorage_get \<lparr>installedNightlyExtensionReleaseDate = None\<rparr> = None"
    by (simp add: DateStorage_get_def)
  show ?thesis
    using a b c d missing_release_date_fatal [OF a b c d, of exampleEnv] by simp
qed

text \<open>
  C4: when the server source is not an explicit path and the installed channel is Stable,
  the first action of the run is the write of \<^verbatim>\<open>null\<close> to the persisted release date,
  whatever the desired channel: every prompt, fetch or reinstall comes after it. When the
  write succeeds, the rest of the run is the channel decision taken on the state whose
  release date is \<^verbatim>\<open>null\<close>; when it fails, its error is thrown and nothing else
  happens.
\<close>

theorem stable_clears_release_date_first:
  assumes "\<not> isExplicitPath (serverSource config)"
    and "installedExtensionUpdateChannel config = Stable"
  shows "(\<exists>out tr st'. ensureProperExtensionVersion config env st
            = (out, StorageUpdate None # tr, st'))
         \<and> (clearResult env = None \<longrightarrow>
              ensureProperExtensionVersion config env st
              = after [StorageUpdate None]
                  (ensureProperExtensionVersion_decide config env
                     (st\<lparr>installedNightlyExtensionReleaseDate := None\<rparr>)))
         \<and> (\<forall>e. clearResult env = Some e \<longrightarrow>
              ensureProperExtensionVersion config env st = (Threw e, [StorageUpdate None], st))"
proof (cases "clearResult env")
  case None
  obtain out tr st' where
    "ensureProperExtensionVersion_decide config env
       (st\<lparr>installedNightlyExtensionReleaseDate := None\<rparr>) = (out, tr, st')"
    by (rule prod_cases3)
  with None assms show ?thesis
    by (simp add: ensureProperExtensionVersion_def DateStorage_set_def DateStorage_stored_def
        after_def)
next
  case (Some e)
  with assms show ?thesis
    by (simp add: ensureProperExtensionVersion_def DateStorage_set_def DateStorage_stored_def)
qed

theorem stable_clears_release_date_first_witness:
  "\<not> isExplicitPath (serverSource exampleStableConfig)
   \<and> installedExtensionUpdateChannel exampleStableConfig = Stable
   \<and> clearResult exampleEnv = None
   \<and> (\<exists>out tr st'. ensureProperExtensionVersion exampleStableConfig exampleEnv exampleState
           = (out, StorageUpdate None # tr, st'))
   \<and> ensureProperExtensionVersion exampleStableConfig exampleEnv exampleState
       = after [StorageUpdate None]
           (ensureProperExtensionVersion_decide exampleStableConfig exampleEnv
              (exampleState\<lparr>installedNightlyExtensionReleaseDate := None\<rparr>))
   \<and> ensureProperExtensionVersion exampleStableConfig
         (exampleEnv\<lparr>clearResult := Some ''update failed''\<rparr>) exampleState
       = (Threw ''update failed'', [StorageUpdate None], exampleState)"
proof -
  have a: "\<not> isExplicitPath (serverSource exampleStableConfig)"
    by (simp add: isExplicitPath_def serverSource_def exampleStableConfig_def
        prebuiltServerFileName_def)
  have b: "installedExtensionUpdateChannel exampleStableConfig = Stable"
    by (simp add: installedExtensionUpdateChannel_def exampleStableConfig_def NIGHTLY_TAG_def)
  have c: "clearResult exampleEnv = None"
    by (simp add: exampleEnv_def)
  note t1 = stable_clears_release_date_first [OF a b, of exampleEnv exampleState]
  note t2 = stable_clears_release_date_first [OF a b,
      of "exampleEnv\<lparr>clearResult := Some ''update failed''\<rparr>" exampleState]
  from t1 have e0: "\<exists>out tr st'. ensureProperExtensionVersion exampleStableConfig exampleEnv
      exampleState = (out, StorageUpdate None # tr, st')"
    by (rule conjunct1)
  from t1 c have e1: "ensureProperExtensionVersion exampleStableConfig exampleEnv exampleState
       = after [StorageUpdate None]
           (ensureProperExtensionVersion_decide exampleStableConfig exampleEnv
              (exampleState\<lparr>installedNightlyExtensionReleaseDate := None\<rparr>))"
    by blast
  from t2 have e2: "ensureProperExtensionVersion exampleStableConfig
         (exampleEnv\<lparr>clearResult := Some ''update failed''\<rparr>) exampleState
       = (Threw ''update failed'', [StorageUpdate None], exampleState)"
    by simp
  from a b c e0 e1 e2 show ?thesis
    by (intro conjI)
qed

section \<open>The fetch-and-install procedure\<close>

text \<open>The \<^verbatim>\<open>try\<close> block, one case for each place where it can stop.\<close>

lemma tryDownloadNightlyExtension_try_cases:
  "tryDownloadNightlyExtension_try config env guard st =
     (case fetchResult env of
        Inl e \<Rightarrow> (Threw e, [fetchAction config], st)
      | Inr info \<Rightarrow>
          (case guard info (afterOtherInstance env st) of
             (Inl e, evs) \<Rightarrow> (Threw e, fetchAction config # evs, afterOtherInstance env st)
           | (Inr False, evs) \<Rightarrow> (Returned, fetchAction config # evs, afterOtherInstance env st)
           | (Inr True, evs) \<Rightarrow>
               (case downloadResult env of
                  Some e \<Rightarrow> (Threw e, fetchAction config # evs @ [downloadAction config info],
                              afterOtherInstance env st)
                | None \<Rightarrow>
                   (case installResult env of
                      Some e \<Rightarrow>
                        (Threw e,
                         fetchAction config # evs @
                           [downloadAction config info, InstallExtensionFromVsix (vsixPath config)],
                         afterOtherInstance env st)
                    | None \<Rightarrow>
                       (case persistResult env of
                          Some e \<Rightarrow>
                            (Threw e,
                             fetchAction config # evs @
                               [downloadAction config info,
                                InstallExtensionFromVsix (vsixPath config),
                                StorageUpdate (DateStorage_stored env (Some (releaseDate info)))],
                             afterOtherInstance env st)
                        | None \<Rightarrow>
                           (case unlinkResult env of
                              Some e \<Rightarrow>
                                (Threw e,
                                 fetchAction config # evs @
                                   [downloadAction config info,
                                    InstallExtensionFromVsix (vsixPath config),
                                    StorageUpdate (DateStorage_stored env (Some (releaseDate info))),
                                    Unlink (vsixPath config)],
                                 (afterOtherInstance env st)
                                   \<lparr>installedNightlyExtensionReleaseDate :=
                                      DateStorage_stored env (Some (releaseDate info))\<rparr>)
                            | None \<Rightarrow>
                               (case reloadResult env of
                                  Some e \<Rightarrow>
                                    (Threw e,
                                     fetchAction config # evs @
                                       [downloadAction config info,
                                        InstallExtensionFromVsix (vsixPath config),
                                        StorageUpdate (DateStorage_stored env (Some (releaseDate info))),
                                        Unlink (vsixPath config), ReloadWindow],
                                     (afterOtherInstance env st)
                                       \<lparr>installedNightlyExtensionReleaseDate :=
                                          DateStorage_stored env (Some (releaseDate info))\<rparr>)
                                | None \<Rightarrow>
                                    (Restarted,
                                     fetchAction config # evs @
                                       [downloadAction config info,
                                        InstallExtensionFromVsix (vsixPath config),
                                        StorageUpdate (DateStorage_stored env (Some (releaseDate info))),
                                        Unlink (vsixPath config), ReloadWindow],
                                     (afterOtherInstance env st)
                                       \<lparr>installedNightlyExtensionReleaseDate :=
                                          DateStorage_stored env (Some (releaseDate info))\<rparr>))))))))"
  by (simp add: tryDownloadNightlyExtension_try_def afterOtherInstance_def fetchAction_def
      downloadAction_def vsixPath_def await_def DateStorage_set_def vscodeReloadWindow_def
      after_def Let_def
      split: sum.splits option.splits prod.splits bool.splits)


lemma nightlyVsixSource_repo_name: "repo_name (src_repo (nightlyVsixSource config)) = ''rust-analyzer''"
  by (simp add: nightlyVsixSource_def createGithubReleaseSource_def)

text \<open>
  C5: \<^verbatim>\<open>tryDownloadNightlyExtension\<close> never throws. When the fetch of the release
  info, the guard, the download, the install, the write of the release date or the
  deletion of the file throws \<open>e\<close>, the procedure returns normally, its last action is
  the log of \<open>e\<close> with the artifact name \<^verbatim>\<open>nightly extension\<close> and the repository name
  \<^verbatim>\<open>rust-analyzer\<close>, and the window reload is not among its own actions.
\<close>

theorem download_errors_caught_and_logged:
  "(\<forall>e. fst (tryDownloadNightlyExtension config env guard st) \<noteq> Threw e)
   \<and> (fetchResult env = Inl e \<longrightarrow>
        tryDownloadNightlyExtension config env guard st =
          (Returned,
           [fetchAction config, LogDownloadError e ''nightly extension'' ''rust-analyzer''],
           st))
   \<and> (fetchResult env = Inr info \<and> guard info (afterOtherInstance env st) = (Inl e, evs) \<longrightarrow>
        tryDownloadNightlyExtension config env guard st =
          (Returned,
           fetchAction config # evs @
             [LogDownloadError e ''nightly extension'' ''rust-analyzer''],
           afterOtherInstance env st))
   \<and> (fetchResult env = Inr info \<and> guard info (afterOtherInstance env st) = (Inr True, evs)
        \<and> downloadResult env = Some e \<longrightarrow>
        tryDownloadNightlyExtension config env guard st =
          (Returned,
           fetchAction config # evs @
             [downloadAction config info,
              LogDownloadError e ''nightly extension'' ''rust-analyzer''],
           afterOtherInstance env st))
   \<and> (fetchResult env = Inr info \<and> guard info (afterOtherInstance env st) = (Inr True, evs)
        \<and> downloadResult env = None \<and> installResult env = Some e \<longrightarrow>
        tryDownloadNightlyExtension config env guard st =
          (Returned,
           fetchAction config # evs @
             [downloadAction config info, InstallExtensionFromVsix (vsixPath config),
              LogDownloadError e ''nightly extension'' ''rust-analyzer''],
           afterOtherInstance env st))
   \<and> (fetchResult env = Inr info \<and> guard info (afterOtherInstance env st) = (Inr True, evs)
        \<and> downloadResult env = None \<and> installResult env = None
        \<and> persistResult env = Some e \<longrightarrow>
        tryDownloadNightlyExtension config env guard st =
          (Returned,
           fetchAction config # evs @
             [downloadAction config info, InstallExtensionFromVsix (vsixPath config),
              StorageUpdate (DateStorage_stored env (Some (releaseDate info))),
              LogDownloadError e ''nightly extension'' ''rust-analyzer''],
           afterOtherInstance env st))
   \<and> (fetchResult env = Inr info \<and> guard info (afterOtherInstance env st) = (Inr True, evs)
        \<and> downloadResult env = None \<and> installResult env = None
        \<and> persistResult env = None \<and> unlinkResult env = Some e \<longrightarrow>
        tryDownloadNightlyExtension config env guard st =
          (Returned,
           fetchAction config # evs @
             [downloadAction config info, InstallExtensionFromVsix (vsixPath config),
              StorageUpdate (DateStorage_stored env (Some (releaseDate info))),
              Unlink (vsixPath config),
              LogDownloadError e ''nightly extension'' ''rust-analyzer''],
           (afterOtherInstance env st)
             \<lparr>installedNightlyExtensionReleaseDate :=
                DateStorage_stored env (Some (releaseDate info))\<rparr>))"
proof -
  have never: "\<forall>e. fst (tryDownloadNightlyExtension config env guard st) \<noteq> Threw e"
    by (simp add: tryDownloadNightlyExtension_def split: prod.splits Outcome.splits)
  show ?thesis
    using never
    by (simp add: tryDownloadNightlyExtension_def tryDownloadNightlyExtension_try_cases
        nightlyVsixSource_repo_name)
qed

theorem download_errors_caught_and_logged_witness:
  "tryDownloadNightlyExtension exampleNightlyConfig
       (exampleEnv\<lparr>fetchResult := Inl ''getaddrinfo ENOTFOUND api.github.com''\<rparr>)
       defaultShouldDownload exampleState
     = (Returned,
        [fetchAction exampleNightlyConfig,
         LogDownloadError ''getaddrinfo ENOTFOUND api.github.com'' ''nightly extension''
           ''rust-analyzer''],
        exampleState)
   \<and> tryDownloadNightlyExtension exampleNightlyConfig
       (exampleEnv\<lparr>otherInstanceWrite := Some (Some 1583971200000)\<rparr>)
       (stalenessGuard 1583020800000) exampleState
     = (Returned,
        [fetchAction exampleNightlyConfig,
         LogDownloadError ''Other active VSCode instance has reinstalled the extension''
           ''nightly extension'' ''rust-analyzer''],
        exampleFutureState)
   \<and> tryDownloadNightlyExtension exampleNightlyConfig
       (exampleEnv\<lparr>downloadResult := Some ''socket hang up''\<rparr>)
       defaultShouldDownload exampleState
     = (Returned,
        [fetchAction exampleNightlyConfig,
         downloadAction exampleNightlyConfig exampleReleaseInfo,
         LogDownloadError ''socket hang up'' ''nightly extension'' ''rust-analyzer''],
        exampleState)
   \<and> tryDownloadNightlyExtension exampleNightlyConfig
       (exampleEnv\<lparr>installResult := Some ''install failed''\<rparr>)
       defaultShouldDownload exampleState
     = (Returned,
        [fetchAction exampleNightlyConfig,
         downloadAction exampleNightlyConfig exampleReleaseInfo,
         InstallExtensionFromVsix (vsixPath exampleNightlyConfig),
         LogDownloadError ''install failed'' ''nightly extension'' ''rust-analyzer''],
        exampleState)
   \<and> tryDownloadNightlyExtension exampleNightlyConfig
       (exampleEnv\<lparr>persistResult := Some ''update failed''\<rparr>)
       defaultShouldDownload exampleState
     = (Returned,
        [fetchAction exampleNightlyConfig,
         downloadAction exampleNightlyConfig exampleReleaseInfo,
         InstallExtensionFromVsix (vsixPath exampleNightlyConfig),
         StorageUpdate (Some 1583971200000),
         LogDownloadError ''update failed'' ''nightly extension'' ''rust-analyzer''],
        exampleState)
   \<and> tryDownloadNightlyExtension exampleNightlyConfig
       (exampleEnv\<lparr>unlinkResult := Some ''EACCES''\<rparr>)
       defaultShouldDownload exampleState
     = (Returned,
        [fetchAction exampleNightlyConfig,
         downloadAction exampleNightlyConfig exampleReleaseInfo,
         InstallExtensionFromVsix (vsixPath exampleNightlyConfig),
         StorageUpdate (Some 1583971200000),
         Unlink (vsixPath exampleNightlyConfig),
         LogDownloadError ''EACCES'' ''nightly extension'' ''rust-analyzer''],
        exampleFutureState)"
proof -
  have s: "DateStorage_stored e (Some (releaseDate exampleReleaseInfo)) = Some 1583971200000"
    if "Date_of_toString e = Date_toString_parse" for e
    using that by (simp add: DateStorage_stored_def Date_toString_parse_def exampleReleaseInfo_def)
  have o: "afterOtherInstance exampleEnv exampleState = exampleState"
    "afterOtherInstance (exampleEnv\<lparr>otherInstanceWrite := Some (Some 1583971200000)\<rparr>)
       exampleState = exampleFutureState"
    by (simp_all add: afterOtherInstance_def exampleEnv_def exampleState_def
        exampleFutureState_def)
  have g: "stalenessGuard 1583020800000 exampleReleaseInfo exampleFutureState
      = (Inl ''Other active VSCode instance has reinstalled the extension'', [])"
    by (simp add: stalenessGuard_def DateStorage_get_def exampleFutureState_def)
  have u: "exampleState\<lparr>installedNightlyExtensionReleaseDate := Some 1583971200000\<rparr>
      = exampleFutureState"
    by (simp add: exampleState_def exampleFutureState_def)
  show ?thesis
    using
      download_errors_caught_and_logged [where config = exampleNightlyConfig
        and env = "exampleEnv\<lparr>fetchResult := Inl ''getaddrinfo ENOTFOUND api.github.com''\<rparr>"
        and guard = defaultShouldDownload and st = exampleState
        and e = "''getaddrinfo ENOTFOUND api.github.com''"]
      download_errors_caught_and_logged [where config = exampleNightlyConfig
        and env = "exampleEnv\<lparr>otherInstanceWrite := Some (Some 1583971200000)\<rparr>"
        and guard = "stalenessGuard 1583020800000" and st = exampleState
        and info = exampleReleaseInfo and evs = "[]"
        and e = "''Other active VSCode instance has reinstalled the extension''"]
      download_errors_caught_and_logged [where config = exampleNightlyConfig
        and env = "exampleEnv\<lparr>downloadResult := Some ''socket hang up''\<rparr>"
        and guard = defaultShouldDownload and st = exampleState
        and info = exampleReleaseInfo and evs = "[]" and e = "''socket hang up''"]
      download_errors_caught_and_logged [where config = exampleNightlyConfig
        and env = "exampleEnv\<lparr>installResult := Some ''install failed''\<rparr>"
        and guard = defaultShouldDownload and st = exampleState
        and info = exampleReleaseInfo and evs = "[]" and e = "''install failed''"]
      download_errors_caught_and_logged [where config = exampleNightlyConfig
        and env = "exampleEnv\<lparr>persistResult := Some ''update failed''\<rparr>"
        and guard = defaultShouldDownload and st = exampleState
        and info = exampleReleaseInfo and evs = "[]" and e = "''update failed''"]
      download_errors_caught_and_logged [where config = exampleNightlyConfig
        and env = "exampleEnv\<lparr>unlinkResult := Some ''EACCES''\<rparr>"
        and guard = defaultShouldDownload and st = exampleState
        and info = exampleReleaseInfo and evs = "[]" and e = "''EACCES''"]
    by (simp add: s o g u afterOtherInstance_def exampleEnv_def defaultShouldDownload_def)
qed

section \<open>The staleness test\<close>

lemma exampleNightlyConfig_not_explicit: "\<not> isExplicitPath (serverSource exampleNightlyConfig)"
  by (simp add: isExplicitPath_def serverSource_def exampleNightlyConfig_def
      prebuiltServerFileName_def)

lemma exampleNightlyConfig_channels:
  "installedExtensionUpdateChannel exampleNightlyConfig = Nightly"
  "updatesChannel exampleNightlyConfig = Nightly"
  "askBeforeDownload exampleNightlyConfig"
  by (simp_all add: installedExtensionUpdateChannel_def exampleNightlyConfig_def NIGHTLY_TAG_def)

lemma diffInHours_exampleState:
  "diffInHours (localTZA exampleEnv) 1583020800000 (now exampleEnv) = Some (- 216)"
  by (simp add: exampleEnv_def calendar_defs)

lemma diffInHours_exampleFutureState:
  "diffInHours (localTZA exampleEnv) 1583971200000 (now exampleEnv) = Some 48"
  by (simp add: exampleEnv_def calendar_defs)

text \<open>
  C1 fails on the code, at a nightly build whose persisted release date is
  2020-03-01T00:00:00Z while the clock is at 2020-03-10T12:00:00Z in UTC, with the nightly
  channel desired: 228 hours have passed, yet \<^verbatim>\<open>diffInHours(currentExtReleaseDate,
  dateNow)\<close> is -216 (the release date minus now), which is below 25, and the run
  returns with no action: no prompt and no fetch. In the other direction, with a
  persisted release date of 2020-03-12T00:00:00Z (36 hours after the clock, so less than
  25 hours have passed) \<^verbatim>\<open>diffInHours\<close> is 48 and the prompt is shown.
\<close>

theorem outdated_nightly_not_updated:
  "DateStorage_get exampleState = Some 1583020800000
   \<and> 25 * (1000 * 60 * 60) \<le> now exampleEnv - 1583020800000
   \<and> diffInHours (localTZA exampleEnv) 1583020800000 (now exampleEnv) = Some (- 216)
   \<and> ensureProperExtensionVersion exampleNightlyConfig exampleEnv exampleState
       = (Returned, [], exampleState)
   \<and> DateStorage_get exampleFutureState = Some 1583971200000
   \<and> now exampleEnv - 1583971200000 < 25 * (1000 * 60 * 60)
   \<and> ensureProperExtensionVersion exampleNightlyConfig
         (exampleEnv\<lparr>userResponse := Some ''Cancel''\<rparr>) exampleFutureState
       = (Returned, [stalePrompt], exampleFutureState)"
proof -
  have a: "DateStorage_get exampleState = Some 1583020800000"
    by (simp add: DateStorage_get_def exampleState_def)
  have b: "25 * (1000 * 60 * 60) \<le> now exampleEnv - 1583020800000"
    by (simp add: exampleEnv_def)
  have c: "ensureProperExtensionVersion exampleNightlyConfig exampleEnv exampleState
       = (Returned, [], exampleState)"
    by (simp add: ensureProperExtensionVersion_def ensureProperExtensionVersion_decide_def
        exampleNightlyConfig_not_explicit exampleNightlyConfig_channels a
        diffInHours_exampleState Number_lt_def
        HEURISTIC_NIGHTLY_RELEASE_PERIOD_IN_HOURS_def)
  have a': "DateStorage_get exampleFutureState = Some 1583971200000"
    by (simp add: DateStorage_get_def exampleFutureState_def)
  have b': "now exampleEnv - 1583971200000 < 25 * (1000 * 60 * 60)"
    by (simp add: exampleEnv_def)
  have e: "now (exampleEnv\<lparr>userResponse := Some ''Cancel''\<rparr>) = now exampleEnv"
    "localTZA (exampleEnv\<lparr>userResponse := Some ''Cancel''\<rparr>) = localTZA exampleEnv"
    by simp_all
  have p: "askToDownloadProperExtensionVersion exampleNightlyConfig
             (exampleEnv\<lparr>userResponse := Some ''Cancel''\<rparr>)
             ''The installed nightly version is most likely outdated. ''
           = (False, [stalePrompt])"
    by (simp add: askToDownloadProperExtensionVersion_def exampleNightlyConfig_channels
        stalePrompt_def)
  have c': "ensureProperExtensionVersion exampleNightlyConfig
         (exampleEnv\<lparr>userResponse := Some ''Cancel''\<rparr>) exampleFutureState
       = (Returned, [stalePrompt], exampleFutureState)"
    by (simp add: ensureProperExtensionVersion_def ensureProperExtensionVersion_decide_def
        exampleNightlyConfig_not_explicit exampleNightlyConfig_channels a' e p
        diffInHours_exampleFutureState Number_lt_def
        HEURISTIC_NIGHTLY_RELEASE_PERIOD_IN_HOURS_def)
  show ?thesis
    using a b c a' b' c' diffInHours_exampleState by simp
qed

text \<open>
  C6 fails on the code, by the same slip. At the input of C1 (persisted release date
  2020-03-01T00:00:00Z, clock at 2020-03-10T12:00:00Z, 228 hours later), with a user who
  would choose "Download now" and a fetch that would return a release of the persisted
  date, the claim has the prompt accepted, the guard return false and the information
  message shown. The run returns before the prompt: it has no action at all, so neither
  download, install, write nor reload, but no information message either.
\<close>

theorem up_to_date_nightly_no_message:
  "DateStorage_get exampleState = Some 1583020800000
   \<and> 25 * (1000 * 60 * 60) \<le> now exampleEnv - 1583020800000
   \<and> askBeforeDownload exampleNightlyConfig
   \<and> userResponse (exampleEnv\<lparr>fetchResult := Inr exampleSameReleaseInfo\<rparr>)
       = Some ''Download now''
   \<and> fetchResult (exampleEnv\<lparr>fetchResult := Inr exampleSameReleaseInfo\<rparr>)
       = Inr exampleSameReleaseInfo
   \<and> releaseDate exampleSameReleaseInfo = 1583020800000
   \<and> ensureProperExtensionVersion exampleNightlyConfig
         (exampleEnv\<lparr>fetchResult := Inr exampleSameReleaseInfo\<rparr>) exampleState
       = (Returned, [], exampleState)"
proof -
  have a: "DateStorage_get exampleState = Some 1583020800000"
    by (simp add: DateStorage_get_def exampleState_def)
  have b: "25 * (1000 * 60 * 60) \<le> now exampleEnv - 1583020800000"
    "userResponse exampleEnv = Some ''Download now''"
    by (simp_all add: exampleEnv_def)
  have r: "releaseDate exampleSameReleaseInfo = 1583020800000"
    by (simp add: exampleSameReleaseInfo_def)
  have c: "ensureProperExtensionVersion exampleNightlyConfig
         (exampleEnv\<lparr>fetchResult := Inr exampleSameReleaseInfo\<rparr>) exampleState
       = (Returned, [], exampleState)"
    by (simp add: ensureProperExtensionVersion_def ensureProperExtensionVersion_decide_def
        exampleNightlyConfig_not_explicit exampleNightlyConfig_channels a
        diffInHours_exampleState Number_lt_def
        HEURISTIC_NIGHTLY_RELEASE_PERIOD_IN_HOURS_def)
  show ?thesis
    using a b r c exampleNightlyConfig_channels(3) by simp
qed

text \<open>
  The guard itself does what the claim says, where the code reaches it: on the path
  that the code takes for staleness (installed and desired channel Nightly, a persisted
  release date, and \<^verbatim>\<open>hoursSinceLastUpdate < 25\<close> false), when the user accepts the
  prompt, the fetched release date equals the persisted one and no other instance has
  written the persisted date, the run is the prompt, the fetch and the information
  message, and the persisted state is as before. With the sign of \<^verbatim>\<open>diffInHours\<close>
  as it is, that path is taken only for a persisted date two or more local calendar days
  after the clock.
\<close>

lemma staleness_guard_same_release:
  assumes "\<not> isExplicitPath (serverSource config)"
    and "installedExtensionUpdateChannel config = Nightly"
    and "updatesChannel config = Nightly"
    and "DateStorage_get st = Some d"
    and "\<not> Number_lt (diffInHours (localTZA env) d (now env))
               HEURISTIC_NIGHTLY_RELEASE_PERIOD_IN_HOURS"
    and "askBeforeDownload config"
    and "userResponse env = Some ''Download now''"
    and "fetchResult env = Inr info"
    and "releaseDate info = d"
    and "otherInstanceWrite env = None"
  shows "ensureProperExtensionVersion config env st =
           (Returned,
            [stalePrompt, fetchAction config, ShowInformationMessage upToDateMessage []],
            st)"
proof -
  have g: "stalenessGuard d info (afterOtherInstance env st)
             = (Inr False, [ShowInformationMessage upToDateMessage []])"
    using assms(4,9,10) by (simp add: stalenessGuard_def afterOtherInstance_def)
  have t: "tryDownloadNightlyExtension config env (stalenessGuard d) st
             = (Returned, [fetchAction config, ShowInformationMessage upToDateMessage []], st)"
    using assms(8,10) g
    by (simp add: tryDownloadNightlyExtension_def tryDownloadNightlyExtension_try_cases
        afterOtherInstance_def)
  have a: "askToDownloadProperExtensionVersion config env
             ''The installed nightly version is most likely outdated. ''
           = (True, [stalePrompt])"
    using assms(3,6,7) by (simp add: askToDownloadProperExtensionVersion_def stalePrompt_def)
  show ?thesis
    using assms(1-5)
    by (simp add: ensureProperExtensionVersion_def ensureProperExtensionVersion_decide_def
        a t after_def)
qed

lemma staleness_guard_same_release_example:
  "\<not> isExplicitPath (serverSource exampleNightlyConfig)
   \<and> installedExtensionUpdateChannel exampleNightlyConfig = Nightly
   \<and> updatesChannel exampleNightlyConfig = Nightly
   \<and> DateStorage_get exampleFutureState = Some 1583971200000
   \<and> \<not> Number_lt (diffInHours (localTZA exampleEnv) 1583971200000 (now exampleEnv))
          HEURISTIC_NIGHTLY_RELEASE_PERIOD_IN_HOURS
   \<and> askBeforeDownload exampleNightlyConfig
   \<and> userResponse exampleEnv = Some ''Download now''
   \<and> fetchResult exampleEnv = Inr exampleReleaseInfo
   \<and> releaseDate exampleReleaseInfo = 1583971200000
   \<and> otherInstanceWrite exampleEnv = None
   \<and> ensureProperExtensionVersion exampleNightlyConfig exampleEnv exampleFutureState
       = (Returned,
          [stalePrompt, fetchAction exampleNightlyConfig,
           ShowInformationMessage upToDateMessage []],
          exampleFutureState)"
proof -
  have d: "DateStorage_get exampleFutureState = Some 1583971200000"
    by (simp add: DateStorage_get_def exampleFutureState_def)
  have h: "\<not> Number_lt (diffInHours (localTZA exampleEnv) 1583971200000 (now exampleEnv))
          HEURISTIC_NIGHTLY_RELEASE_PERIOD_IN_HOURS"
    by (simp add: diffInHours_exampleFutureState Number_lt_def
        HEURISTIC_NIGHTLY_RELEASE_PERIOD_IN_HOURS_def)
  have u: "userResponse exampleEnv = Some ''Download now''"
    and f: "fetchResult exampleEnv = Inr exampleReleaseInfo"
    and r: "releaseDate exampleReleaseInfo = 1583971200000"
    and w: "otherInstanceWrite exampleEnv = None"
    by (simp_all add: exampleEnv_def exampleReleaseInfo_def)
  show ?thesis
    using exampleNightlyConfig_not_explicit exampleNightlyConfig_channels d h u f r w
      staleness_guard_same_release [OF exampleNightlyConfig_not_explicit
        exampleNightlyConfig_channels(1,2) d h exampleNightlyConfig_channels(3) u f r w]
    by simp
qed

section \<open>The prompt and \<^verbatim>\<open>updates.askBeforeDownload\<close>\<close>

lemma withoutPrompts_simp:
  "withoutPrompts (out, tr, st) = (out, filter (\<lambda>ev. \<not> isPrompt ev) tr, st)"
  by (simp add: withoutPrompts_def)

lemma isPrompt_actions:
  "\<not> isPrompt (fetchAction config)" "\<not> isPrompt (downloadAction config info)"
  by (simp_all add: fetchAction_def downloadAction_def)

lemma filter_no_prompts:
  "\<forall>ev\<in>set evs. \<not> isPrompt ev \<Longrightarrow> filter (\<lambda>ev. \<not> isPrompt ev) evs = evs"
  by (simp add: filter_id_conv)

lemma tryDownloadNightlyExtension_no_prompts:
  assumes "\<And>info s. \<forall>ev\<in>set (snd (guard info s)). \<not> isPrompt ev"
  shows "withoutPrompts (tryDownloadNightlyExtension config env guard st)
         = tryDownloadNightlyExtension config env guard st"
proof (cases "fetchResult env")
  case (Inl e)
  then show ?thesis
    by (simp add: tryDownloadNightlyExtension_def tryDownloadNightlyExtension_try_cases
        withoutPrompts_simp isPrompt_actions)
next
  case (Inr info)
  obtain res evs where g: "guard info (afterOtherInstance env st) = (res, evs)"
    by (rule prod.exhaust)
  have "\<forall>ev\<in>set (snd (guard info (afterOtherInstance env st))). \<not> isPrompt ev"
    by (rule assms)
  then have f: "filter (\<lambda>ev. \<not> isPrompt ev) evs = evs"
    using g by (simp add: filter_no_prompts)
  show ?thesis
    using Inr g f
    by (simp add: tryDownloadNightlyExtension_def tryDownloadNightlyExtension_try_cases
        withoutPrompts_simp isPrompt_actions
        split: sum.splits option.splits bool.splits)
qed

lemma guards_no_prompts:
  "\<forall>ev\<in>set (snd (defaultShouldDownload info s)). \<not> isPrompt ev"
  "\<forall>ev\<in>set (snd (stalenessGuard d info s)). \<not> isPrompt ev"
  by (simp_all add: defaultShouldDownload_def stalenessGuard_def)

lemma actions_prompt_independent:
  "nightlyVsixSource (config\<lparr>askBeforeDownload := b\<rparr>) = nightlyVsixSource config"
  "fetchAction (config\<lparr>askBeforeDownload := b\<rparr>) = fetchAction config"
  "downloadAction (config\<lparr>askBeforeDownload := b\<rparr>) info = downloadAction config info"
  "vsixPath (config\<lparr>askBeforeDownload := b\<rparr>) = vsixPath config"
  "afterOtherInstance (env\<lparr>userResponse := u\<rparr>) st = afterOtherInstance env st"
  "DateStorage_stored (env\<lparr>userResponse := u\<rparr>) date = DateStorage_stored env date"
  by (simp_all add: afterOtherInstance_def fetchAction_def downloadAction_def vsixPath_def
      nightlyVsixSource_def createGithubReleaseSource_def DateStorage_stored_def)

lemma tryDownloadNightlyExtension_try_prompt_independent:
  "tryDownloadNightlyExtension_try (config\<lparr>askBeforeDownload := b\<rparr>)
     (env\<lparr>userResponse := u\<rparr>) guard st
   = tryDownloadNightlyExtension_try config env guard st"
  by (simp add: tryDownloadNightlyExtension_try_cases actions_prompt_independent
      split: sum.splits option.splits prod.splits bool.splits)

lemma tryDownloadNightlyExtension_prompt_independent:
  "tryDownloadNightlyExtension (config\<lparr>askBeforeDownload := b\<rparr>) (env\<lparr>userResponse := u\<rparr>)
     guard st
   = tryDownloadNightlyExtension config env guard st"
  by (simp add: tryDownloadNightlyExtension_def tryDownloadNightlyExtension_try_prompt_independent
      actions_prompt_independent split: prod.splits Outcome.splits)

lemma reinstall_no_prompts:
  "withoutPrompts
      (await (ReinstallExtension i) (reinstallResult env)
         (vscodeReloadWindow (env\<lparr>userResponse := u\<rparr>)) st)
   = await (ReinstallExtension i) (reinstallResult env) (vscodeReloadWindow env) st"
  by (simp add: await_def vscodeReloadWindow_def after_def withoutPrompts_def
      split: option.splits)

lemma withoutPrompts_after_prompt:
  "withoutPrompts (after [ShowInformationMessage m [''Download now'', ''Cancel'']] r)
   = withoutPrompts r"
  by (cases r) (simp add: after_def withoutPrompts_def)

lemma prebuiltServerFileName_prompt_independent:
  "prebuiltServerFileName (config\<lparr>askBeforeDownload := b\<rparr>) = prebuiltServerFileName config"
  by (simp add: prebuiltServerFileName_def)

lemma serverSource_prompt_independent:
  "serverSource (config\<lparr>askBeforeDownload := b\<rparr>) = serverSource config"
  by (simp add: serverSource_def prebuiltServerFileName_prompt_independent
      createGithubReleaseSource_def Let_def split: option.splits)

lemma channel_prompt_independent:
  "installedExtensionUpdateChannel (config\<lparr>askBeforeDownload := b\<rparr>)
   = installedExtensionUpdateChannel config"
  by (simp add: installedExtensionUpdateChannel_def)

lemma ask_disabled:
  "\<not> askBeforeDownload config \<Longrightarrow>
   askToDownloadProperExtensionVersion config env reason = (True, [])"
  by (simp add: askToDownloadProperExtensionVersion_def)

lemma ask_accepted:
  "\<exists>m. askToDownloadProperExtensionVersion (config\<lparr>askBeforeDownload := True\<rparr>)
     (env\<lparr>userResponse := Some ''Download now''\<rparr>) reason
   = (True, [ShowInformationMessage m [''Download now'', ''Cancel'']])"
  by (simp add: askToDownloadProperExtensionVersion_def)

lemma decide_without_prompt:
  assumes "\<not> askBeforeDownload config"
  shows "ensureProperExtensionVersion_decide config env st
         = withoutPrompts
             (ensureProperExtensionVersion_decide (config\<lparr>askBeforeDownload := True\<rparr>)
                (env\<lparr>userResponse := Some ''Download now''\<rparr>) st)"
proof -
  obtain m1 where a1: "askToDownloadProperExtensionVersion (config\<lparr>askBeforeDownload := True\<rparr>)
     (env\<lparr>userResponse := Some ''Download now''\<rparr>) []
   = (True, [ShowInformationMessage m1 [''Download now'', ''Cancel'']])"
    using ask_accepted by blast
  obtain m2 where a2: "askToDownloadProperExtensionVersion (config\<lparr>askBeforeDownload := True\<rparr>)
     (env\<lparr>userResponse := Some ''Download now''\<rparr>)
     ''The installed nightly version is most likely outdated. ''
   = (True, [ShowInformationMessage m2 [''Download now'', ''Cancel'']])"
    using ask_accepted by blast
  show ?thesis
    unfolding ensureProperExtensionVersion_decide_def Let_def
    by (simp add: ask_disabled [OF assms] a1 a2 channel_prompt_independent
        tryDownloadNightlyExtension_prompt_independent reinstall_no_prompts
        withoutPrompts_after_prompt tryDownloadNightlyExtension_no_prompts guards_no_prompts
        withoutPrompts_simp after_Nil
        split: option.splits)
qed

text \<open>
  C10: with \<^verbatim>\<open>updates.askBeforeDownload\<close> false, a run is the run that the same
  input gives with the option true and the user choosing "Download now", with the prompt
  taken out of its actions: the same outcome, the same other actions in the same order,
  the same persisted state, and no prompt.
\<close>

theorem no_prompt_when_not_asking:
  assumes "\<not> askBeforeDownload config"
  shows "ensureProperExtensionVersion config env st
         = withoutPrompts
             (ensureProperExtensionVersion (config\<lparr>askBeforeDownload := True\<rparr>)
                (env\<lparr>userResponse := Some ''Download now''\<rparr>) st)"
proof -
  have c: "DateStorage_set env None (clearResult env)
             (ensureProperExtensionVersion_decide config env) st
           = withoutPrompts
               (DateStorage_set (env\<lparr>userResponse := Some ''Download now''\<rparr>) None
                  (clearResult env)
                  (ensureProperExtensionVersion_decide (config\<lparr>askBeforeDownload := True\<rparr>)
                     (env\<lparr>userResponse := Some ''Download now''\<rparr>)) st)"
  proof (cases "clearResult env")
    case None
    obtain out tr st' where r: "ensureProperExtensionVersion_decide
        (config\<lparr>askBeforeDownload := True\<rparr>) (env\<lparr>userResponse := Some ''Download now''\<rparr>)
        (st\<lparr>installedNightlyExtensionReleaseDate := None\<rparr>) = (out, tr, st')"
      by (rule prod_cases3)
    show ?thesis
      using None r
      by (simp add: DateStorage_set_def DateStorage_stored_def decide_without_prompt [OF assms]
          after_def withoutPrompts_def)
  next
    case (Some e)
    then show ?thesis
      by (simp add: DateStorage_set_def DateStorage_stored_def withoutPrompts_def)
  qed
  show ?thesis
    unfolding ensureProperExtensionVersion_def
    by (simp add: serverSource_prompt_independent channel_prompt_independent c
        decide_without_prompt [OF assms] withoutPrompts_simp)
qed

theorem no_prompt_when_not_asking_witness:
  "\<not> askBeforeDownload (exampleStableConfig\<lparr>askBeforeDownload := False\<rparr>)
   \<and> ensureProperExtensionVersion (exampleStableConfig\<lparr>askBeforeDownload := False\<rparr>)
         exampleEnv exampleState
       = withoutPrompts
           (ensureProperExtensionVersion exampleStableConfig exampleEnv exampleState)
   \<and> ensureProperExtensionVersion exampleStableConfig exampleEnv exampleState
       = (Restarted,
          [StorageUpdate None,
           ShowInformationMessage
             (''Do you want to download the latest nightly rust-analyzer extension ''
              @ ''version and reload the window now?'')
             [''Download now'', ''Cancel''],
           fetchAction exampleStableConfig,
           downloadAction exampleStableConfig exampleReleaseInfo,
           InstallExtensionFromVsix (vsixPath exampleStableConfig),
           StorageUpdate (Some 1583971200000),
           Unlink (vsixPath exampleStableConfig),
           ReloadWindow],
          exampleFutureState)
   \<and> ensureProperExtensionVersion (exampleStableConfig\<lparr>askBeforeDownload := False\<rparr>)
         exampleEnv exampleState
       = (Restarted,
          [StorageUpdate None,
           fetchAction exampleStableConfig,
           downloadAction exampleStableConfig exampleReleaseInfo,
           InstallExtensionFromVsix (vsixPath exampleStableConfig),
           StorageUpdate (Some 1583971200000),
           Unlink (vsixPath exampleStableConfig),
           ReloadWindow],
          exampleFutureState)"
proof -
  have c: "exampleStableConfig\<lparr>askBeforeDownload := False, askBeforeDownload := True\<rparr>
           = exampleStableConfig"
    by (simp add: exampleStableConfig_def)
  have e: "exampleEnv\<lparr>userResponse := Some ''Download now''\<rparr> = exampleEnv"
    by (simp add: exampleEnv_def)
  have x: "\<not> isExplicitPath (serverSource exampleStableConfig)"
    by (simp add: isExplicitPath_def serverSource_def exampleStableConfig_def
        prebuiltServerFileName_def)
  have s: "installedExtensionUpdateChannel exampleStableConfig = Stable"
    "updatesChannel exampleStableConfig = Nightly" "askBeforeDownload exampleStableConfig"
    by (simp_all add: installedExtensionUpdateChannel_def exampleStableConfig_def NIGHTLY_TAG_def)
  have t: "tryDownloadNightlyExtension exampleStableConfig exampleEnv defaultShouldDownload
             (exampleState\<lparr>installedNightlyExtensionReleaseDate := None\<rparr>)
           = (Restarted,
              [fetchAction exampleStableConfig,
               downloadAction exampleStableConfig exampleReleaseInfo,
               InstallExtensionFromVsix (vsixPath exampleStableConfig),
               StorageUpdate (Some 1583971200000),
               Unlink (vsixPath exampleStableConfig),
               ReloadWindow],
              exampleFutureState)"
    by (simp add: tryDownloadNightlyExtension_def tryDownloadNightlyExtension_try_cases
        exampleEnv_def defaultShouldDownload_def afterOtherInstance_def DateStorage_stored_def
        Date_toString_parse_def exampleReleaseInfo_def exampleState_def exampleFutureState_def)
  have v: "clearResult exampleEnv = None" "userResponse exampleEnv = Some ''Download now''"
    by (simp_all add: exampleEnv_def)
  have r: "ensureProperExtensionVersion exampleStableConfig exampleEnv exampleState
       = (Restarted,
          [StorageUpdate None,
           ShowInformationMessage
             (''Do you want to download the latest nightly rust-analyzer extension ''
              @ ''version and reload the window now?'')
             [''Download now'', ''Cancel''],
           fetchAction exampleStableConfig,
           downloadAction exampleStableConfig exampleReleaseInfo,
           InstallExtensionFromVsix (vsixPath exampleStableConfig),
           StorageUpdate (Some 1583971200000),
           Unlink (vsixPath exampleStableConfig),
           ReloadWindow],
          exampleFutureState)"
    using x s v
    by (simp add: ensureProperExtensionVersion_def ensureProperExtensionVersion_decide_def
        DateStorage_set_def DateStorage_stored_def askToDownloadProperExtensionVersion_def t
        after_def)
  show ?thesis
    using no_prompt_when_not_asking
      [of "exampleStableConfig\<lparr>askBeforeDownload := False\<rparr>" exampleEnv exampleState]
    by (simp add: c e r withoutPrompts_simp isPrompt_actions)
qed

section \<open>Re-entrancy\<close>

text \<open>
  The flag is set exactly while an invocation is in flight, in every state the process
  can reach.
\<close>

lemma advance_entered:
  "entered p \<Longrightarrow> entered (advance r p) = inFlight (advance r p)"
  by (cases r) (simp add: advance_def inFlight_def split: Task.splits)

lemma step_invariant:
  assumes "entered p = inFlight p"
  shows "entered (step p i) = inFlight (step p i)"
proof (cases i)
  case (Call config env guard)
  show ?thesis
  proof (cases "entered p")
    case True
    with assms Call show ?thesis by (simp add: notReentrant_def)
  next
    case False
    have "entered (advance r (p\<lparr>entered := True\<rparr>)) = inFlight (advance r (p\<lparr>entered := True\<rparr>))" for r
      by (rule advance_entered) simp
    with False Call show ?thesis by (simp add: notReentrant_def)
  qed
next
  case Resume
  show ?thesis
  proof (cases "inFlight p")
    case True
    then obtain k where k: "inflight p = Some (Suspended k)"
      by (auto simp: inFlight_def split: option.splits Task.splits)
    from True assms have "entered p" by simp
    then have "entered (advance (k (store p)) p) = inFlight (advance (k (store p)) p)"
      by (rule advance_entered)
    with Resume k show ?thesis by (simp add: resume_def)
  next
    case False
    then have "resume p = p"
      by (simp add: resume_def inFlight_def split: option.splits Task.splits)
    with Resume assms show ?thesis by simp
  qed
qed

lemma reachable_invariant:
  "entered p = inFlight p \<Longrightarrow> entered (foldl step p ins) = inFlight (foldl step p ins)"
  by (induction ins arbitrary: p) (simp_all add: step_invariant)

lemma initialProcess_invariant: "entered (initialProcess st) = inFlight (initialProcess st)"
  by (simp add: initialProcess_def inFlight_def)

text \<open>
  The segments are the procedure: a single call, resumed until it has finished, performs
  the actions of \<open>tryDownloadNightlyExtension\<close>, with its outcome and its final state.
\<close>

lemmas async_defs =
  tryDownloadNightlyExtension_def tryDownloadNightlyExtension_try_cases
  nightlyVsixSource_repo_name initialProcess_def notReentrant_def resume_def advance_def
  tryDownloadNightlyExtension_async_def guardSegment_def installSegment_def
  persistSegment_def unlinkSegment_def reloadSegment_def catchTask_def logAction_def Let_def

lemma lone_invocation_runs_to_completion:
  "foldl step (initialProcess st)
     [Call config env guard, Resume, Resume, Resume, Resume, Resume, Resume]
   = (case tryDownloadNightlyExtension config env guard st of
        (out, tr, st') \<Rightarrow>
          \<lparr> entered = False, store = st', inflight = None, performed = tr, outcomes = [out] \<rparr>)"
proof (cases "fetchResult env")
  case (Inl e)
  then show ?thesis by (simp add: async_defs)
next
  case f: (Inr info)
  obtain res evs where g: "guard info (afterOtherInstance env st) = (res, evs)"
    by (rule prod.exhaust)
  show ?thesis
  proof (cases res)
    case (Inl e)
    with f g show ?thesis by (simp add: async_defs)
  next
    case (Inr b)
    show ?thesis
    proof (cases b)
      case False
      with f g Inr show ?thesis by (simp add: async_defs)
    next
      case True
      note h = f g Inr True
      show ?thesis
      proof (cases "downloadResult env")
        case (Some e)
        with h show ?thesis by (simp add: async_defs)
      next
        case d: None
        show ?thesis
        proof (cases "installResult env")
          case (Some e)
          with h d show ?thesis by (simp add: async_defs)
        next
          case i: None
          show ?thesis
          proof (cases "persistResult env")
            case (Some e)
            with h d i show ?thesis by (simp add: async_defs)
          next
            case s: None
            show ?thesis
            proof (cases "unlinkResult env")
              case (Some e)
              with h d i s show ?thesis by (simp add: async_defs)
            next
              case u: None
              show ?thesis
              proof (cases "reloadResult env")
                case (Some e)
                with h d i s u show ?thesis by (simp add: async_defs)
              next
                case None
                with h d i s u show ?thesis by (simp add: async_defs)
              qed
            qed
          qed
        qed
      qed
    qed
  qed
qed


text \<open>
  C9: after any history of calls and resumptions, while an invocation of the
  fetch-and-install procedure is in flight, a further call is rejected: it leaves the
  process as it is (no action, no write to the persisted state, the invocation in flight
  untouched), and the rest of the history runs as if the call had not been made.
\<close>

theorem second_invocation_rejected:
  "inFlight (foldl step (initialProcess st) ins) \<longrightarrow>
     notReentrant (tryDownloadNightlyExtension_async config env guard)
         (foldl step (initialProcess st) ins)
       = (Rejected, foldl step (initialProcess st) ins)
     \<and> foldl step (initialProcess st) (ins @ Call config env guard # rest)
       = foldl step (initialProcess st) (ins @ rest)"
  using reachable_invariant [OF initialProcess_invariant, of st ins]
  by (simp add: notReentrant_def)

theorem second_invocation_rejected_witness:
  "inFlight (foldl step (initialProcess exampleState)
       [Call exampleNightlyConfig exampleEnv defaultShouldDownload])
   \<and> notReentrant (tryDownloadNightlyExtension_async exampleNightlyConfig exampleEnv
           (stalenessGuard 1583020800000))
         (foldl step (initialProcess exampleState)
           [Call exampleNightlyConfig exampleEnv defaultShouldDownload])
       = (Rejected,
          foldl step (initialProcess exampleState)
            [Call exampleNightlyConfig exampleEnv defaultShouldDownload])
   \<and> foldl step (initialProcess exampleState)
         ([Call exampleNightlyConfig exampleEnv defaultShouldDownload]
          @ Call exampleNightlyConfig exampleEnv (stalenessGuard 1583020800000)
          # [Resume, Resume, Resume, Resume, Resume, Resume])
       = foldl step (initialProcess exampleState)
           ([Call exampleNightlyConfig exampleEnv defaultShouldDownload]
            @ [Resume, Resume, Resume, Resume, Resume, Resume])"
proof -
  have f: "fetchResult exampleEnv = Inr exampleReleaseInfo"
    by (simp add: exampleEnv_def)
  have a: "inFlight (foldl step (initialProcess exampleState)
       [Call exampleNightlyConfig exampleEnv defaultShouldDownload])"
    by (simp add: f initialProcess_def notReentrant_def advance_def
        tryDownloadNightlyExtension_async_def inFlight_def)
  show ?thesis
    using a second_invocation_rejected [where st = exampleState
        and ins = "[Call exampleNightlyConfig exampleEnv defaultShouldDownload]"
        and config = exampleNightlyConfig and env = exampleEnv
        and guard = "stalenessGuard 1583020800000"
        and rest = "[Resume, Resume, Resume, Resume, Resume, Resume]"]
    by blast
qed

end
